theory Spec2Isabelle
  imports Complex_Main "HOL-Library.Log_Nat" "HOL-Library.Sublist"
begin

section \<open>Numbers of the program\<close>

text \<open>
  \<^verbatim>\<open>GameElement.py\<close> computes with three kinds of numbers.

  Python integers (\<open>x\<close>, \<open>y\<close>, \<open>dt\<close>) are unbounded: \<open>int\<close>.

  Python floats (the components of a \<open>pygame.math.Vector2\<close>, the products
  \<open>velocity.x * dt\<close>) are binary64 values: a rational number, an infinity or NaN. The
  rounding of each operation is written out, as is the overflow to an infinity; the two
  zeros are not told apart (nothing here depends on the sign of a zero).

  The fields of a \<open>pygame.Rect\<close> are C \<open>int\<close>s of 32 bits. They are modelled as the integers
  they denote, with the wrap-around of the addition and the conversion from a float written
  out.
\<close>

datatype pyfloat = Finite rat | PosInf | NegInf | NaN

datatype error =
    RuntimeError string   \<comment> \<open>the specification's \<open>UninitializedSubsystem\<close>\<close>
  | ValueError string     \<comment> \<open>the specification's \<open>InvalidArgument\<close>\<close>
  | ImageLoadError string \<comment> \<open>whatever \<open>pygame.image.load\<close> or \<open>convert_alpha\<close> raises\<close>
  | OverflowError string  \<comment> \<open>raised by Python when an \<open>int\<close> is too large for a float\<close>

definition trunc_toward_zero :: "rat \<Rightarrow> int" where
  \<comment> \<open>the fractional part is discarded\<close>
  "trunc_toward_zero q = (if 0 \<le> q then \<lfloor>q\<rfloor> else \<lceil>q\<rceil>)"

definition round_half_even :: "rat \<Rightarrow> int" where
  \<comment> \<open>the nearest integer, a tie going to the even neighbour\<close>
  "round_half_even q =
     (let n = \<lfloor>q\<rfloor>; r = q - of_int n
      in if r < 1 / 2 then n
         else if 1 / 2 < r then n + 1
         else if even n then n else n + 1)"

definition binade :: "rat \<Rightarrow> int" where
  \<comment> \<open>for \<open>q \<noteq> 0\<close>, the exponent \<open>e\<close> with \<open>2 powi e \<le> \<bar>q\<bar> < 2 powi (e + 1)\<close>\<close>
  "binade q =
     (let (p, d) = quotient_of \<bar>q\<bar>; e = bitlen p - bitlen d
      in if 2 powi e \<le> \<bar>q\<bar> then e else e - 1)"

definition float_round :: "rat \<Rightarrow> rat" where
  \<comment> \<open>\<open>q\<close> rounded to 53 significant bits, ties to even, subnormal below
      \<open>2 powi - 1022\<close>: the binary64 value nearest to \<open>q\<close> when there is one\<close>
  "float_round q =
     (if q = 0 then 0
      else let u = 2 powi (max (binade q) (- 1022) - 52)
           in of_int (round_half_even (q / u)) * u)"

definition float_overflows :: "rat \<Rightarrow> bool" where
  \<comment> \<open>\<open>2 ^ 1024 \<le> \<bar>r\<bar>\<close>: a rounded value beyond the largest finite binary64 value\<close>
  "float_overflows r \<longleftrightarrow> r \<noteq> 0 \<and> 1024 \<le> binade r"

definition float_result :: "rat \<Rightarrow> pyfloat" where
  \<comment> \<open>what a float operation returns for the exact result \<open>q\<close>: the rounded value, or an
      infinity when that overflows\<close>
  "float_result q =
     (let r = float_round q
      in if float_overflows r then (if 0 < r then PosInf else NegInf) else Finite r)"

definition float_of_int :: "int \<Rightarrow> error + rat" where
  \<comment> \<open>Python's conversion of an \<open>int\<close> operand of a float operation: the int is rounded,
      and \<open>OverflowError\<close> is raised when no finite float is that large\<close>
  "float_of_int n =
     (let r = float_round (of_int n)
      in if float_overflows r then Inl (OverflowError ''int too large to convert to float'')
         else Inr r)"

fun float_mul :: "pyfloat \<Rightarrow> rat \<Rightarrow> pyfloat" where
  \<comment> \<open>the product of a float and a finite float\<close>
  "float_mul (Finite a) b = float_result (a * b)"
| "float_mul PosInf b = (if b = 0 then NaN else if 0 < b then PosInf else NegInf)"
| "float_mul NegInf b = (if b = 0 then NaN else if 0 < b then NegInf else PosInf)"
| "float_mul NaN b = NaN"

definition float_mul_int :: "pyfloat \<Rightarrow> int \<Rightarrow> error + pyfloat" where
  \<comment> \<open>the Python expression \<open>f * n\<close> for a float \<open>f\<close> and an int \<open>n\<close>\<close>
  "float_mul_int f n =
     (case float_of_int n of Inl e \<Rightarrow> Inl e | Inr d \<Rightarrow> Inr (float_mul f d))"

definition c_int_range :: "int \<Rightarrow> bool" where
  \<comment> \<open>the values of a C \<open>int\<close>\<close>
  "c_int_range n \<longleftrightarrow> - (2 ^ 31) \<le> n \<and> n < 2 ^ 31"

definition c_int_wrap :: "int \<Rightarrow> int" where
  \<comment> \<open>the C \<open>int\<close> that an arithmetic result is stored as: two's complement wrap-around\<close>
  "c_int_wrap n = (n + 2 ^ 31) mod 2 ^ 32 - 2 ^ 31"

fun c_int_of_double :: "pyfloat \<Rightarrow> int" where
  \<comment> \<open>the C conversion \<open>(int) d\<close> of a double: the fractional part is discarded. When the
      value does not fit (an infinity and NaN never do) C leaves the result undefined; the
      conversion instruction of x86-64 then returns the most negative int, and that is the
      value taken here\<close>
  "c_int_of_double (Finite q) =
     (if c_int_range (trunc_toward_zero q) then trunc_toward_zero q else - (2 ^ 31))"
| "c_int_of_double PosInf = - (2 ^ 31)"
| "c_int_of_double NegInf = - (2 ^ 31)"
| "c_int_of_double NaN = - (2 ^ 31)"


section \<open>The pygame objects the class uses\<close>

text \<open>
  pygame is a dependency of the package, not part of it. The model keeps of it what
  \<^verbatim>\<open>GameElement.py\<close> relies on.
\<close>

record Vector2 =
  vec_x :: pyfloat
  vec_y :: pyfloat

text \<open>A \<open>pygame.Rect\<close>: four integers \<open>x\<close>, \<open>y\<close>, \<open>w\<close>, \<open>h\<close>, each a C \<open>int\<close>.\<close>

record Rect =
  rect_x :: int
  rect_y :: int
  rect_w :: int
  rect_h :: int

definition topleft :: "Rect \<Rightarrow> int \<times> int" where
  "topleft r = (rect_x r, rect_y r)"

definition rect_size :: "Rect \<Rightarrow> int \<times> int" where
  \<comment> \<open>the attribute \<open>Rect.size\<close>\<close>
  "rect_size r = (rect_w r, rect_h r)"

definition move_ip :: "Rect \<Rightarrow> pyfloat \<Rightarrow> pyfloat \<Rightarrow> Rect" where
  \<comment> \<open>\<open>Rect.move_ip(dx, dy)\<close> with float arguments: each is converted to a C int and
      added to the field, in C\<close>
  "move_ip r dx dy =
     r\<lparr>rect_x := c_int_wrap (rect_x r + c_int_of_double dx),
       rect_y := c_int_wrap (rect_y r + c_int_of_double dy)\<rparr>"

text \<open>
  A \<open>pygame.Surface\<close>: its dimensions and what has been blitted onto it, in order (the
  source surface as it was then, and the destination position). The pixel data itself is
  not represented.
\<close>

datatype Surface =
  Surface (get_width: int) (get_height: int) (blits: "(Surface \<times> int \<times> int) list")

definition get_size :: "Surface \<Rightarrow> int \<times> int" where
  "get_size s = (get_width s, get_height s)"

definition get_rect :: "Surface \<Rightarrow> int \<times> int \<Rightarrow> Rect" where
  \<comment> \<open>\<open>Surface.get_rect(topleft=(x, y))\<close>: the rectangle \<open>(0, 0, w, h)\<close> of the surface,
      then its \<open>topleft\<close> set. The position is taken as it is; one that no C int holds,
      which pygame refuses, is not told apart\<close>
  "get_rect s pos = \<lparr>rect_x = fst pos, rect_y = snd pos, rect_w = get_width s, rect_h = get_height s\<rparr>"

definition blit :: "Surface \<Rightarrow> Surface \<Rightarrow> int \<times> int \<Rightarrow> Surface" where
  \<comment> \<open>\<open>dest.blit(source, pos)\<close>: the destination after the call\<close>
  "blit dest source pos = Surface (get_width dest) (get_height dest) (blits dest @ [(source, pos)])"

text \<open>
  Surfaces are objects: the element holds a reference, and the caller may hold the same
  one. A reference is a natural number, and the state of pygame is the store of the
  surfaces, the flag that \<open>pygame.get_init()\<close> returns, and what
  \<open>pygame.image.load(path).convert_alpha()\<close> yields for each path (\<open>None\<close> when it raises).
\<close>

type_synonym surface_ref = nat

record pygame =
  get_init :: bool
  image_load :: "string \<Rightarrow> Surface option"
  surfaces :: "surface_ref \<Rightarrow> Surface"
  next_ref :: surface_ref


section \<open>The class GameElement\<close>

datatype image_arg =
    Path string              \<comment> \<open>a \<open>str\<close>\<close>
  | SurfaceObject surface_ref  \<comment> \<open>a \<open>pygame.Surface\<close>\<close>
  | OtherObject              \<comment> \<open>any other Python object\<close>

record GameElement =
  image_surface :: surface_ref
  rect :: Rect
  velocity :: Vector2
  collidable :: bool

definition not_initialized_message :: "string \<Rightarrow> string" where
  "not_initialized_message class_name =
     ''Pygame must be initialized before creating a '' @ class_name @ '' object. '' @
     ''Please call pygame.init() before using this class.''"

definition bad_image_message :: string where
  "bad_image_message =
     ''The image parameter must be either a file path or a pygame.Surface object.''"

definition GameElement_init ::
  "string \<Rightarrow> pygame \<Rightarrow> image_arg \<Rightarrow> int \<Rightarrow> int \<Rightarrow> Vector2 \<Rightarrow> bool \<Rightarrow> error + (GameElement \<times> pygame)"
where
  \<comment> \<open>\<open>__init__\<close>; \<open>class_name\<close> is \<open>self.__class__.__name__\<close>\<close>
  "GameElement_init class_name pg img x y vel coll =
     (if \<not> get_init pg then Inl (RuntimeError (not_initialized_message class_name))
      else
        (case img of
           Path p \<Rightarrow>
             (case image_load pg p of
                None \<Rightarrow> Inl (ImageLoadError p)
              | Some s \<Rightarrow>
                  Inr (\<lparr>image_surface = next_ref pg, rect = get_rect s (x, y),
                        velocity = vel, collidable = coll\<rparr>,
                       pg\<lparr>surfaces := (surfaces pg)(next_ref pg := s),
                          next_ref := Suc (next_ref pg)\<rparr>))
         | SurfaceObject h \<Rightarrow>
             Inr (\<lparr>image_surface = h, rect = get_rect (surfaces pg h) (x, y),
                   velocity = vel, collidable = coll\<rparr>, pg)
         | OtherObject \<Rightarrow> Inl (ValueError bad_image_message)))"

definition update :: "GameElement \<Rightarrow> int \<Rightarrow> error + GameElement" where
  \<comment> \<open>\<open>update(dt, events, screen)\<close>; the body reads neither \<open>events\<close> nor \<open>screen\<close>.
      Both products are evaluated before \<open>move_ip\<close> is called, so an exception leaves
      \<open>self\<close> as it was\<close>
  "update self dt =
     (case float_mul_int (vec_x (velocity self)) dt of
        Inl e \<Rightarrow> Inl e
      | Inr px \<Rightarrow>
          (case float_mul_int (vec_y (velocity self)) dt of
             Inl e \<Rightarrow> Inl e
           | Inr py \<Rightarrow> Inr (self\<lparr>rect := move_ip (rect self) px py\<rparr>)))"

definition collided_with :: "GameElement \<Rightarrow> GameElement \<Rightarrow> GameElement \<times> GameElement" where
  \<comment> \<open>the body is \<open>pass\<close>: both objects as they are after the call\<close>
  "collided_with self other_element = (self, other_element)"

definition draw :: "GameElement \<Rightarrow> surface_ref \<Rightarrow> pygame \<Rightarrow> GameElement \<times> pygame" where
  \<comment> \<open>\<open>screen.blit(self.image, self.rect.topleft)\<close>\<close>
  "draw self screen pg =
     (self,
      pg\<lparr>surfaces := (surfaces pg)
            (screen := blit (surfaces pg screen) (surfaces pg (image_surface self))
                         (topleft (rect self)))\<rparr>)"


section \<open>Sequences of calls, and the elements of the examples\<close>

text \<open>
  The base operations that can be called on an element after its construction. A
  collision involves two elements, and each of them can be the receiver of
  \<open>collided_with\<close>, so the element under view is either \<open>self\<close> or \<open>other_element\<close>.
  A call of \<open>update\<close> that raises leaves the element as it was, and the caller goes on.
\<close>

datatype call =
    Update int                   \<comment> \<open>\<open>self.update(dt)\<close>\<close>
  | Collided_with GameElement    \<comment> \<open>\<open>self.collided_with(other)\<close>\<close>
  | Collided_by GameElement      \<comment> \<open>\<open>other.collided_with(self)\<close>\<close>
  | Draw surface_ref             \<comment> \<open>\<open>self.draw(screen)\<close>\<close>

fun call_method :: "call \<Rightarrow> GameElement \<times> pygame \<Rightarrow> GameElement \<times> pygame" where
  "call_method (Update dt) (self, pg) =
     ((case update self dt of Inl e \<Rightarrow> self | Inr self' \<Rightarrow> self'), pg)"
| "call_method (Collided_with other) (self, pg) = (fst (collided_with self other), pg)"
| "call_method (Collided_by other) (self, pg) = (snd (collided_with other self), pg)"
| "call_method (Draw screen) (self, pg) = draw self screen pg"

fun call_methods :: "call list \<Rightarrow> GameElement \<times> pygame \<Rightarrow> GameElement \<times> pygame" where
  "call_methods [] st = st"
| "call_methods (c # cs) st = call_methods cs (call_method c st)"

text \<open>
  The scenario of the specification: pygame is initialised, the image is a surface of
  32 by 16 pixels, the element is constructed at (10, 20) with
  \<open>Vector2(0.1, -0.05)\<close>, whose components are the floats that the literals denote.
\<close>

definition scenario_pygame :: pygame where
  \<comment> \<open>surface 0 is the image, surface 1 a display of 640 by 480, and the file
      \<open>ship.png\<close> holds an image of 32 by 16 pixels\<close>
  "scenario_pygame =
     \<lparr>get_init = True,
      image_load = (\<lambda>p. if p = ''ship.png'' then Some (Surface 32 16 []) else None),
      surfaces = (\<lambda>h. if h = 0 then Surface 32 16 [] else Surface 640 480 []),
      next_ref = 2\<rparr>"

definition scenario_velocity :: Vector2 where
  "scenario_velocity =
     \<lparr>vec_x = Finite (float_round (1 / 10)), vec_y = Finite (float_round (- (1 / 20)))\<rparr>"

definition scenario_element :: GameElement where
  "scenario_element =
     \<lparr>image_surface = 0, rect = \<lparr>rect_x = 10, rect_y = 20, rect_w = 32, rect_h = 16\<rparr>,
      velocity = scenario_velocity, collidable = True\<rparr>"

text \<open>
  An element at the origin that moves half a pixel per millisecond to the right
  (\<open>Vector2(0.5, 0)\<close>; one half is a float).
\<close>

definition slow_element :: GameElement where
  "slow_element =
     \<lparr>image_surface = 0, rect = \<lparr>rect_x = 0, rect_y = 0, rect_w = 32, rect_h = 16\<rparr>,
      velocity = \<lparr>vec_x = Finite (1 / 2), vec_y = Finite 0\<rparr>, collidable = True\<rparr>"

text \<open>
  An element that moves a quarter of a pixel per millisecond to the right and three
  quarters up (\<open>Vector2(0.25, -0.75)\<close>), and one at the origin that moves three thousand
  million pixels per millisecond to the right (\<open>Vector2(3e9, 0)\<close>).
\<close>

definition diagonal_element :: GameElement where
  "diagonal_element =
     \<lparr>image_surface = 0, rect = \<lparr>rect_x = 10, rect_y = 20, rect_w = 32, rect_h = 16\<rparr>,
      velocity = \<lparr>vec_x = Finite (1 / 4), vec_y = Finite (- (3 / 4))\<rparr>, collidable = True\<rparr>"

definition fast_element :: GameElement where
  "fast_element =
     \<lparr>image_surface = 0, rect = \<lparr>rect_x = 0, rect_y = 0, rect_w = 32, rect_h = 16\<rparr>,
      velocity = \<lparr>vec_x = Finite 3000000000, vec_y = Finite 0\<rparr>, collidable = True\<rparr>"

text \<open>
  To state where an element is after a call: the element with its \<open>rect\<close> moved by whole
  numbers of pixels, and nothing else changed.
\<close>

definition translated :: "GameElement \<Rightarrow> int \<Rightarrow> int \<Rightarrow> GameElement" where
  "translated el dx dy =
     el\<lparr>rect := (rect el)\<lparr>rect_x := rect_x (rect el) + dx, rect_y := rect_y (rect el) + dy\<rparr>\<rparr>"

text \<open>pygame before \<open>pygame.init()\<close>.\<close>

definition uninitialized_pygame :: pygame where
  "uninitialized_pygame = scenario_pygame\<lparr>get_init := False\<rparr>"

text \<open>
  A frame or two of the scenario's element: it moves, collides with \<open>slow_element\<close> (each
  of the two receiving the call), is drawn on the display and, to have the aliased case,
  on its own image, and moves again.
\<close>

definition scenario_calls :: "call list" where
  "scenario_calls =
     [Update 100, Collided_with slow_element, Collided_by slow_element, Draw 1, Draw 0,
      Update 200]"


section \<open>Facts about the numbers\<close>

lemma trunc_toward_zero_of_int: "trunc_toward_zero (of_int n) = n"
  by (simp add: trunc_toward_zero_def)

lemma trunc_toward_zero_0: "trunc_toward_zero 0 = 0"
  by (simp add: trunc_toward_zero_def)

lemma trunc_toward_zero_Ints: "q \<in> \<int> \<Longrightarrow> of_int (trunc_toward_zero q) = q"
  by (auto simp: Ints_def trunc_toward_zero_of_int)

lemma trunc_toward_zero_bounds:
  "\<bar>rat_of_int (trunc_toward_zero q)\<bar> \<le> \<bar>q\<bar> \<and> \<bar>q - rat_of_int (trunc_toward_zero q)\<bar> < 1"
  unfolding trunc_toward_zero_def by (auto; linarith)

lemma trunc_toward_zero_small: "\<bar>q\<bar> < 1 \<Longrightarrow> trunc_toward_zero q = 0"
  unfolding trunc_toward_zero_def by (auto; linarith)


text \<open>
  \<open>float_round\<close> is what its name says: \<open>binade\<close> brackets the number between two powers
  of two, the result is a multiple of the unit in the last place with a significand of at
  most 53 bits, it is at most half a unit away from the number, and integers up to
  \<open>2 ^ 53\<close> in magnitude are floats.
\<close>

lemma pow2_bitlen_bounds:
  fixes p :: int
  assumes "0 < p"
  shows "(2::rat) powi (bitlen p - 1) \<le> of_int p" and "of_int p < (2::rat) powi (bitlen p)"
proof -
  from assms have b1: "1 \<le> bitlen p"
    by (metis bitlen_eq_zero_iff bitlen_nonneg int_one_le_iff_zero_less less_le not_le)
  from bitlen_bounds [OF assms]
  have lo: "(2::int) ^ nat (bitlen p - 1) \<le> p" and hi: "p < (2::int) ^ nat (bitlen p)"
    by simp_all
  have "(2::rat) powi (bitlen p - 1) = of_int (2 ^ nat (bitlen p - 1))"
    using b1 by (simp add: power_int_def)
  also have "\<dots> \<le> of_int p"
    using lo by (simp only: of_int_le_iff)
  finally show "(2::rat) powi (bitlen p - 1) \<le> of_int p" .
  have "rat_of_int p < of_int (2 ^ nat (bitlen p))"
    using hi by (simp only: of_int_less_iff)
  also have "\<dots> = (2::rat) powi (bitlen p)"
    using b1 by (simp add: power_int_def)
  finally show "of_int p < (2::rat) powi (bitlen p)" .
qed

lemma binade_bounds:
  assumes "q \<noteq> 0"
  shows "2 powi (binade q) \<le> \<bar>q\<bar>" and "\<bar>q\<bar> < 2 powi (binade q + 1)"
proof -
  obtain p d where pd: "quotient_of \<bar>q\<bar> = (p, d)"
    by (cases "quotient_of \<bar>q\<bar>")
  have d: "0 < d" using pd by (rule quotient_of_denom_pos)
  have q: "\<bar>q\<bar> = of_int p / of_int d" using pd by (rule quotient_of_div)
  have "0 < \<bar>q\<bar>" using assms by simp
  with q d have p: "0 < p"
    by (simp add: zero_less_divide_iff)
  define e where "e = bitlen p - bitlen d"
  have be: "binade q = (if 2 powi e \<le> \<bar>q\<bar> then e else e - 1)"
    by (simp add: binade_def pd e_def Let_def)
  have dpos: "(0::rat) < of_int d" using d by simp
  have lo: "(2::rat) powi (e - 1) \<le> \<bar>q\<bar>"
  proof -
    have "(2::rat) powi (e - 1) * of_int d \<le> 2 powi (e - 1) * 2 powi (bitlen d)"
      using pow2_bitlen_bounds(2) [OF d] by (simp add: less_imp_le)
    also have "\<dots> = 2 powi (bitlen p - 1)"
      by (simp add: e_def power_int_add [symmetric])
    also have "\<dots> \<le> of_int p" by (rule pow2_bitlen_bounds(1) [OF p])
    finally show ?thesis
      using dpos by (simp add: q pos_le_divide_eq)
  qed
  have hi: "\<bar>q\<bar> < (2::rat) powi (e + 1)"
  proof -
    have "of_int p < (2::rat) powi (bitlen p)" by (rule pow2_bitlen_bounds(2) [OF p])
    also have "\<dots> = 2 powi (e + 1) * 2 powi (bitlen d - 1)"
      by (simp add: e_def power_int_add [symmetric])
    also have "\<dots> \<le> 2 powi (e + 1) * of_int d"
      using pow2_bitlen_bounds(1) [OF d] by simp
    finally show ?thesis
      using dpos by (simp add: q pos_divide_less_eq)
  qed
  show "2 powi (binade q) \<le> \<bar>q\<bar>"
    using lo by (simp add: be)
  show "\<bar>q\<bar> < 2 powi (binade q + 1)"
    using hi by (auto simp: be not_le)
qed

lemma round_half_even_bounds:
  "\<bar>rat_of_int (round_half_even q) - q\<bar> \<le> 1 / 2"
proof -
  have "rat_of_int \<lfloor>q\<rfloor> \<le> q" and "q < rat_of_int \<lfloor>q\<rfloor> + 1"
    by linarith+
  then show ?thesis
    unfolding round_half_even_def Let_def
    by (simp split: if_splits)
qed

lemma float_round_error:
  assumes "q \<noteq> 0"
  shows "\<bar>float_round q - q\<bar> \<le> 2 powi (max (binade q) (- 1022) - 53)"
proof -
  define u :: rat where "u = 2 powi (max (binade q) (- 1022) - 52)"
  have u: "0 < u" by (simp add: u_def)
  have fr: "float_round q = of_int (round_half_even (q / u)) * u"
    using assms by (simp add: float_round_def u_def Let_def)
  have "float_round q - q = (rat_of_int (round_half_even (q / u)) - q / u) * u"
    using u by (simp add: fr left_diff_distrib)
  then have "\<bar>float_round q - q\<bar> = \<bar>rat_of_int (round_half_even (q / u)) - q / u\<bar> * u"
    using u by (simp add: abs_mult)
  also have "\<dots> \<le> (1 / 2) * u"
    using round_half_even_bounds [of "q / u"] u by (simp only: mult_right_mono less_imp_le)
  also have "\<dots> = 2 powi (max (binade q) (- 1022) - 53)"
    by (simp add: u_def power_int_diff)
  finally show ?thesis .
qed

lemma round_half_even_of_int: "round_half_even (of_int n) = n"
  by (simp add: round_half_even_def)

lemma binade_of_int_range:
  assumes "n \<noteq> 0" and "\<bar>n\<bar> \<le> 2 ^ 53"
  shows "0 \<le> binade (of_int n)" and "binade (of_int n) \<le> 53"
proof -
  let ?q = "rat_of_int n"
  have q: "?q \<noteq> 0" using assms(1) by simp
  have one: "1 \<le> \<bar>?q\<bar>"
    using assms(1) by (simp flip: of_int_abs add: int_one_le_iff_zero_less)
  have top: "\<bar>?q\<bar> \<le> 2 powi 53"
  proof -
    have "rat_of_int \<bar>n\<bar> \<le> rat_of_int (2 ^ 53)"
      using assms(2) by (simp only: of_int_le_iff)
    then show ?thesis by simp
  qed
  show "0 \<le> binade ?q"
  proof (rule ccontr)
    assume "\<not> 0 \<le> binade ?q"
    then have "binade ?q + 1 \<le> 0" by simp
    then have "(2::rat) powi (binade ?q + 1) \<le> 2 powi 0"
      by (intro power_int_increasing) simp_all
    with binade_bounds(2) [OF q] one show False by simp
  qed
  have "(2::rat) powi binade ?q \<le> 2 powi 53"
    using binade_bounds(1) [OF q] top by (rule order_trans)
  then show "binade ?q \<le> 53"
    by (rule power_int_le_imp_le_exp [rotated]) simp_all
qed

lemma float_round_of_int:
  assumes "\<bar>n\<bar> \<le> 2 ^ 53"
  shows "float_round (of_int n) = of_int n"
proof (cases "n = 0")
  case True
  then show ?thesis by (simp add: float_round_def)
next
  case False
  let ?e = "binade (rat_of_int n)"
  note range = binade_of_int_range [OF False assms]
  have q: "rat_of_int n \<noteq> 0" using False by simp
  have fr: "float_round (of_int n) =
      of_int (round_half_even (of_int n / 2 powi (?e - 52))) * 2 powi (?e - 52)"
    using q range(1) by (simp add: float_round_def Let_def max_def)
  show ?thesis
  proof (cases "?e \<le> 52")
    case True
    define k where "k = nat (52 - ?e)"
    have u: "(2::rat) powi (?e - 52) = 1 / 2 ^ k"
      using True by (simp add: k_def power_int_def field_simps)
    have "rat_of_int n / 2 powi (?e - 52) = of_int (n * 2 ^ k)"
      by (simp add: u)
    then have "round_half_even (rat_of_int n / 2 powi (?e - 52)) = n * 2 ^ k"
      by (simp only: round_half_even_of_int)
    then have "float_round (of_int n) = of_int (n * 2 ^ k) * (1 / 2 ^ k)"
      by (simp only: fr u)
    then show ?thesis by simp
  next
    case False
    with range(2) have e: "?e = 53" by simp
    have "(2::rat) powi 53 \<le> \<bar>rat_of_int n\<bar>"
      using binade_bounds(1) [OF q] by (simp only: e)
    then have "rat_of_int (2 ^ 53) \<le> rat_of_int \<bar>n\<bar>" by simp
    then have "2 ^ 53 \<le> \<bar>n\<bar>" by (simp only: of_int_le_iff)
    with assms have "\<bar>n\<bar> = 2 ^ 53" by simp
    then have "n = 2 * 2 ^ 52 \<or> n = 2 * (- (2 ^ 52))" by auto
    then have half: "rat_of_int n / 2 powi (?e - 52) = of_int (n div 2)"
      and even: "rat_of_int (n div 2) * 2 = rat_of_int n"
      by (auto simp: e)
    have "round_half_even (rat_of_int n / 2 powi (?e - 52)) = n div 2"
      by (simp only: half round_half_even_of_int)
    then have "float_round (of_int n) = of_int (n div 2) * 2 powi (53 - 52)"
      by (simp only: fr e)
    then show ?thesis using even by simp
  qed
qed

lemma float_round_representable:
  "\<exists>m k. float_round q = of_int m * 2 powi k \<and> \<bar>m\<bar> \<le> 2 ^ 53 \<and> - 1074 \<le> k"
proof (cases "q = 0")
  case True
  have "float_round q = of_int 0 * 2 powi 0 \<and> \<bar>0::int\<bar> \<le> 2 ^ 53 \<and> - 1074 \<le> (0::int)"
    using True by (simp add: float_round_def)
  then show ?thesis by blast
next
  case False
  define k where "k = max (binade q) (- 1022) - 52"
  define u :: rat where "u = 2 powi k"
  define m where "m = round_half_even (q / u)"
  have u: "0 < u" by (simp add: u_def)
  have fr: "float_round q = of_int m * 2 powi k"
    using False by (simp add: float_round_def k_def u_def m_def Let_def)
  have "\<bar>q\<bar> < 2 powi (binade q + 1)" by (rule binade_bounds(2) [OF False])
  also have "\<dots> \<le> 2 powi (k + 53)"
    by (intro power_int_increasing) (simp_all add: k_def)
  also have "\<dots> = 2 ^ 53 * u"
    by (simp add: u_def power_int_add)
  finally have "\<bar>q / u\<bar> < 2 ^ 53"
    using u by (simp add: pos_divide_less_eq)
  moreover have "\<bar>rat_of_int m - q / u\<bar> \<le> 1 / 2"
    unfolding m_def by (rule round_half_even_bounds)
  ultimately have "\<bar>rat_of_int m\<bar> < 2 ^ 53 + 1"
    by linarith
  then have "\<bar>rat_of_int m\<bar> < rat_of_int (2 ^ 53 + 1)"
    by simp
  then have "\<bar>m\<bar> < 2 ^ 53 + 1"
    by (simp only: of_int_less_iff flip: of_int_abs)
  then have "\<bar>m\<bar> \<le> 2 ^ 53" by simp
  moreover have "- 1074 \<le> k" by (simp add: k_def)
  ultimately show ?thesis using fr by blast
qed

lemma float_round_sign:
  "0 \<le> q \<Longrightarrow> 0 \<le> float_round q" "q \<le> 0 \<Longrightarrow> float_round q \<le> 0"
proof -
  have r: "0 \<le> x \<Longrightarrow> 0 \<le> round_half_even x" "x \<le> 0 \<Longrightarrow> round_half_even x \<le> 0" for x
  proof -
    have "rat_of_int \<lfloor>x\<rfloor> \<le> x" and "x < rat_of_int \<lfloor>x\<rfloor> + 1"
      by linarith+
    then show "0 \<le> x \<Longrightarrow> 0 \<le> round_half_even x" "x \<le> 0 \<Longrightarrow> round_half_even x \<le> 0"
      unfolding round_half_even_def Let_def
      by (auto split: if_splits simp: floor_less_iff le_floor_iff)
  qed
  show "0 \<le> q \<Longrightarrow> 0 \<le> float_round q"
    using r(1) [of "q / 2 powi (max (binade q) (- 1022) - 52)"]
    by (simp add: float_round_def Let_def)
  show "q \<le> 0 \<Longrightarrow> float_round q \<le> 0"
    using r(2) [of "q / 2 powi (max (binade q) (- 1022) - 52)"]
    by (simp add: float_round_def Let_def mult_le_0_iff divide_le_0_iff)
qed

lemma float_round_relative_error:
  "\<bar>float_round q - q\<bar> \<le> \<bar>q\<bar> / 2 ^ 53 + 2 powi (- 1075)"
proof (cases "q = 0")
  case True
  then show ?thesis by (simp add: float_round_def)
next
  case False
  note err = float_round_error [OF False]
  show ?thesis
  proof (cases "- 1022 \<le> binade q")
    case True
    have "(2::rat) powi (binade q - 53) = 2 powi (binade q) / 2 ^ 53"
      by (simp add: power_int_diff)
    also have "\<dots> \<le> \<bar>q\<bar> / 2 ^ 53"
      using binade_bounds(1) [OF False] by (simp add: divide_right_mono)
    finally have "(2::rat) powi (binade q - 53) \<le> \<bar>q\<bar> / 2 ^ 53" .
    moreover have "(0::rat) \<le> 2 powi (- 1075)" by simp
    ultimately show ?thesis
      using err True by (simp add: max_def)
  next
    case False
    then have "max (binade q) (- 1022) - 53 = - 1075" by simp
    with err have "\<bar>float_round q - q\<bar> \<le> 2 powi (- 1075)" by simp
    moreover have "0 \<le> \<bar>q\<bar> / 2 ^ 53" by simp
    ultimately show ?thesis by linarith
  qed
qed

text \<open>Integers up to \<open>2 ^ 53\<close> in magnitude convert exactly, and so do whole products.\<close>

text \<open>\<open>float_overflows\<close> compares the exponent, and that is the comparison with \<open>2 ^ 1024\<close>.\<close>

lemma float_overflows_iff: "float_overflows r \<longleftrightarrow> 2 ^ 1024 \<le> \<bar>r\<bar>"
proof
  assume "float_overflows r"
  then have r: "r \<noteq> 0" and b: "1024 \<le> binade r"
    by (simp_all add: float_overflows_def)
  have "(2::rat) powi 1024 \<le> 2 powi binade r"
    using b by (intro power_int_increasing) simp_all
  also have "\<dots> \<le> \<bar>r\<bar>" by (rule binade_bounds(1) [OF r])
  finally show "2 ^ 1024 \<le> \<bar>r\<bar>" by simp
next
  assume big: "2 ^ 1024 \<le> \<bar>r\<bar>"
  then have r: "r \<noteq> 0" by auto
  have "(2::rat) powi 1024 \<le> \<bar>r\<bar>" using big by simp
  also have "\<dots> < 2 powi (binade r + 1)" by (rule binade_bounds(2) [OF r])
  finally have "(2::rat) powi 1024 < 2 powi (binade r + 1)" .
  have "1024 < binade r + 1"
  proof (rule ccontr)
    assume "\<not> 1024 < binade r + 1"
    then have "(2::rat) powi (binade r + 1) \<le> 2 powi 1024"
      by (intro power_int_increasing) simp_all
    with \<open>(2::rat) powi 1024 < 2 powi (binade r + 1)\<close> show False by simp
  qed
  then show "float_overflows r"
    using r by (simp add: float_overflows_def)
qed

lemma below_float_overflow: "\<bar>q\<bar> \<le> 2 ^ 53 \<Longrightarrow> \<not> float_overflows q"
proof -
  have "(2::rat) ^ 53 < 2 ^ 1024"
    by (rule power_strict_increasing) simp_all
  then show "\<bar>q\<bar> \<le> 2 ^ 53 \<Longrightarrow> \<not> float_overflows q"
    unfolding float_overflows_iff by linarith
qed

lemma rat_of_int_le_2_53: "\<bar>n\<bar> \<le> 2 ^ 53 \<Longrightarrow> \<bar>rat_of_int n\<bar> \<le> 2 ^ 53"
proof -
  assume "\<bar>n\<bar> \<le> 2 ^ 53"
  then have "rat_of_int \<bar>n\<bar> \<le> rat_of_int (2 ^ 53)"
    by (simp only: of_int_le_iff)
  then show ?thesis by simp
qed

lemma float_of_int_exact: "\<bar>n\<bar> \<le> 2 ^ 53 \<Longrightarrow> float_of_int n = Inr (of_int n)"
  using below_float_overflow [OF rat_of_int_le_2_53, of n]
  by (simp add: float_of_int_def float_round_of_int Let_def)

lemma float_mul_int_small:
  "\<bar>n\<bar> \<le> 2 ^ 53 \<Longrightarrow> float_mul_int (Finite f) n = Inr (float_result (f * of_int n))"
  by (simp add: float_mul_int_def float_of_int_exact)

lemma float_result_Finite: "float_result q = Finite p \<Longrightarrow> p = float_round q"
  by (simp add: float_result_def Let_def split: if_splits)

lemma float_result_of_int: "\<bar>m\<bar> \<le> 2 ^ 53 \<Longrightarrow> float_result (of_int m) = Finite (of_int m)"
  using below_float_overflow [OF rat_of_int_le_2_53, of m]
  by (simp add: float_result_def float_round_of_int Let_def)

lemma float_mul_int_exact:
  assumes "\<bar>n\<bar> \<le> 2 ^ 53" and "f * of_int n = of_int m" and "\<bar>m\<bar> \<le> 2 ^ 53"
  shows "float_mul_int (Finite f) n = Inr (Finite (of_int m))"
  using assms by (simp add: float_mul_int_small float_result_of_int)

lemma float_mul_int_Finite_rounds:
  assumes "\<bar>n\<bar> \<le> 2 ^ 53" and "float_mul_int (Finite f) n = Inr (Finite p)"
  shows "p = float_round (f * of_int n)"
  using assms by (simp add: float_mul_int_small float_result_Finite)

lemma float_mul_int_Inl:
  "float_mul_int f n = Inl e \<longleftrightarrow> float_of_int n = Inl e"
  by (simp add: float_mul_int_def split: sum.splits)

lemma float_mul_int_Inr_other:
  "float_mul_int f n = Inr p \<Longrightarrow> \<exists>p'. float_mul_int g n = Inr p'"
  by (auto simp: float_mul_int_def split: sum.splits)

text \<open>C ints.\<close>

lemma c_int_wrap_in_range: "c_int_range n \<Longrightarrow> c_int_wrap n = n"
  by (simp add: c_int_range_def c_int_wrap_def)

lemma c_int_range_wrap: "c_int_range (c_int_wrap n)"
proof -
  have "0 \<le> (n + 2 ^ 31) mod 2 ^ 32" and "(n + 2 ^ 31) mod 2 ^ 32 < (2 ^ 32 :: int)"
    by simp_all
  then show ?thesis
    by (simp add: c_int_range_def c_int_wrap_def)
qed

lemma c_int_of_double_in_range:
  "c_int_range (trunc_toward_zero q) \<Longrightarrow> c_int_of_double (Finite q) = trunc_toward_zero q"
  by simp

lemma c_int_range_0: "c_int_range 0"
  by (simp add: c_int_range_def)

text \<open>An int of magnitude \<open>2 ^ 1024\<close> or more is too large for a float.\<close>

lemma round_half_even_ge_floor: "\<lfloor>x\<rfloor> \<le> round_half_even x"
  by (simp add: round_half_even_def Let_def)

lemma round_half_even_le_ceiling: "round_half_even x \<le> \<lceil>x\<rceil>"
proof (cases "x = of_int \<lfloor>x\<rfloor>")
  case True
  then have "round_half_even x = \<lfloor>x\<rfloor>"
    by (simp add: round_half_even_def Let_def)
  then show ?thesis by (simp add: floor_le_ceiling)
next
  case False
  then have "\<lceil>x\<rceil> = \<lfloor>x\<rfloor> + 1"
    by (simp add: ceiling_altdef)
  then show ?thesis
    by (simp add: round_half_even_def Let_def)
qed

lemma float_round_magnitude:
  assumes "q \<noteq> 0" and "- 1022 \<le> binade q"
  shows "2 powi (binade q) \<le> \<bar>float_round q\<bar>"
proof -
  define u :: rat where "u = 2 powi (binade q - 52)"
  define m where "m = round_half_even (q / u)"
  have u: "0 < u" by (simp add: u_def)
  have fr: "float_round q = of_int m * u"
    using assms by (simp add: float_round_def u_def m_def Let_def max_def)
  have b: "2 ^ 52 * u = 2 powi (binade q)"
    by (simp add: u_def power_int_diff)
  have lo: "2 ^ 52 * u \<le> \<bar>q\<bar>"
    using binade_bounds(1) [OF assms(1)] by (simp only: b)
  have "2 ^ 52 \<le> \<bar>rat_of_int m\<bar>"
  proof (cases "0 < q")
    case True
    with lo u have "rat_of_int (2 ^ 52) \<le> q / u"
      by (simp add: pos_le_divide_eq)
    then have "2 ^ 52 \<le> \<lfloor>q / u\<rfloor>" by (simp only: le_floor_iff)
    from this round_half_even_ge_floor [of "q / u"] have "2 ^ 52 \<le> m"
      unfolding m_def by (rule order_trans)
    then have "rat_of_int (2 ^ 52) \<le> rat_of_int m" by (simp only: of_int_le_iff)
    then show ?thesis by simp
  next
    case False
    with assms(1) have neg: "q < 0" by simp
    with lo u have "q / u \<le> rat_of_int (- (2 ^ 52))"
      by (simp add: pos_divide_le_eq)
    then have "\<lceil>q / u\<rceil> \<le> - (2 ^ 52)" by (simp only: ceiling_le_iff)
    from round_half_even_le_ceiling [of "q / u"] this have "m \<le> - (2 ^ 52)"
      unfolding m_def by (rule order_trans)
    then have "rat_of_int m \<le> rat_of_int (- (2 ^ 52))" by (simp only: of_int_le_iff)
    then show ?thesis by simp
  qed
  then have "2 ^ 52 * u \<le> \<bar>rat_of_int m\<bar> * u"
    using u by (intro mult_right_mono) simp_all
  also have "\<bar>rat_of_int m\<bar> * u = \<bar>float_round q\<bar>"
    using u by (simp add: fr abs_mult)
  finally show ?thesis by (simp only: b)
qed

lemma float_round_overflows:
  assumes "2 ^ 1024 \<le> \<bar>q\<bar>"
  shows "float_overflows (float_round q)"
proof -
  from assms have ov: "float_overflows q" by (simp only: float_overflows_iff)
  then have q: "q \<noteq> 0" and b: "1024 \<le> binade q"
    by (simp_all add: float_overflows_def)
  have "(2::rat) powi 1024 \<le> 2 powi binade q"
    using b by (intro power_int_increasing) simp_all
  also have "\<dots> \<le> \<bar>float_round q\<bar>"
    using q b by (intro float_round_magnitude) simp_all
  finally show ?thesis by (simp add: float_overflows_iff)
qed

lemma float_of_int_overflow:
  assumes "2 ^ 1024 \<le> \<bar>n\<bar>"
  shows "float_of_int n = Inl (OverflowError ''int too large to convert to float'')"
proof -
  have "rat_of_int (2 ^ 1024) \<le> rat_of_int \<bar>n\<bar>"
    using assms by (simp only: of_int_le_iff)
  then have "2 ^ 1024 \<le> \<bar>rat_of_int n\<bar>" by simp
  then have "float_overflows (float_round (rat_of_int n))"
    by (rule float_round_overflows)
  then show ?thesis by (simp add: float_of_int_def Let_def)
qed

text \<open>The floats of the examples.\<close>

lemma float_mul_int_half_1: "float_mul_int (Finite (1 / 2)) 1 = Inr (Finite (1 / 2))"
  by code_simp

lemma float_mul_int_half_2: "float_mul_int (Finite (1 / 2)) 2 = Inr (Finite 1)"
  by code_simp

lemma float_mul_int_0_1: "float_mul_int (Finite 0) 1 = Inr (Finite 0)"
  by code_simp

lemma float_mul_int_diagonal:
  "float_mul_int (Finite (1 / 4)) 6 = Inr (Finite (3 / 2))"
  "float_mul_int (Finite (- (3 / 4))) 6 = Inr (Finite (- (9 / 2)))"
  "float_mul_int (Finite (1 / 4)) 2 = Inr (Finite (1 / 2))"
  "float_mul_int (Finite (- (3 / 4))) 2 = Inr (Finite (- (3 / 2)))"
  by code_simp+

lemma trunc_toward_zero_examples:
  "trunc_toward_zero (1 / 2) = 0" "trunc_toward_zero (3 / 2) = 1"
  "trunc_toward_zero (- (3 / 2)) = - 1" "trunc_toward_zero (- (9 / 2)) = - 4"
  by code_simp+

lemma float_mul_int_fast: "float_mul_int (Finite 3000000000) 1 = Inr (Finite 3000000000)"
  by code_simp

text \<open>
  The float product is the rounded one: three times the float nearest to one third is
  below 1, and the float product \<open>(1 / 3) * 3\<close> is 1.
\<close>

lemma float_product_of_third:
  "float_round (1 / 3) * 3 < 1 \<and> float_mul_int (Finite (float_round (1 / 3))) 3 = Inr (Finite 1)"
  by code_simp

text \<open>The literal \<open>0.1\<close> is not one tenth, and yet its products with 100 and 200 are whole.\<close>

lemma float_round_tenth: "float_round (1 / 10) = 3602879701896397 / 36028797018963968"
  by code_simp

lemma scenario_product_x_100:
  "float_mul_int (Finite (float_round (1 / 10))) 100 = Inr (Finite 10)"
  by code_simp

lemma scenario_product_y_100:
  "float_mul_int (Finite (float_round (- (1 / 20)))) 100 = Inr (Finite (- 5))"
  by code_simp

lemma scenario_product_x_200:
  "float_mul_int (Finite (float_round (1 / 10))) 200 = Inr (Finite 20)"
  by code_simp

lemma scenario_product_y_200:
  "float_mul_int (Finite (float_round (- (1 / 20)))) 200 = Inr (Finite (- 10))"
  by code_simp


section \<open>Facts about update\<close>

lemma update_Inr:
  assumes "float_mul_int (vec_x (velocity el)) dt = Inr px"
    and "float_mul_int (vec_y (velocity el)) dt = Inr py"
  shows "update el dt = Inr (el\<lparr>rect := move_ip (rect el) px py\<rparr>)"
  using assms by (simp add: update_def)

lemma update_Inl: "float_of_int dt = Inl e \<Longrightarrow> update el dt = Inl e"
  by (simp add: update_def float_mul_int_def)

lemma update_Inr_cases:
  assumes "update el dt = Inr el'"
  obtains px py where "float_mul_int (vec_x (velocity el)) dt = Inr px"
    and "float_mul_int (vec_y (velocity el)) dt = Inr py"
    and "el' = el\<lparr>rect := move_ip (rect el) px py\<rparr>"
  using assms by (auto simp: update_def split: sum.splits)

lemma update_Inr_keeps:
  assumes "update el dt = Inr el'"
  shows "velocity el' = velocity el" and "image_surface el' = image_surface el"
    and "collidable el' = collidable el" and "rect_size (rect el') = rect_size (rect el)"
    and "c_int_range (rect_x (rect el'))" and "c_int_range (rect_y (rect el'))"
  using assms
  by (auto elim!: update_Inr_cases simp: move_ip_def rect_size_def c_int_range_wrap)

lemma update_small_dt:
  assumes "\<bar>dt\<bar> \<le> 2 ^ 53"
  shows "update el dt =
    Inr (el\<lparr>rect := move_ip (rect el) (float_mul (vec_x (velocity el)) (of_int dt))
                                     (float_mul (vec_y (velocity el)) (of_int dt))\<rparr>)"
  using assms by (simp add: update_def float_mul_int_def float_of_int_exact)

lemma translated_fields:
  "topleft (rect (translated el a b)) = (rect_x (rect el) + a, rect_y (rect el) + b)"
  "rect_size (rect (translated el a b)) = rect_size (rect el)"
  "velocity (translated el a b) = velocity el"
  "image_surface (translated el a b) = image_surface el"
  "collidable (translated el a b) = collidable el"
  by (simp_all add: translated_def topleft_def rect_size_def)

lemma translated_translated:
  "translated (translated el a b) c d = translated el (a + c) (b + d)"
  by (simp add: translated_def)

lemma move_ip_in_range:
  assumes "c_int_range (trunc_toward_zero px)" and "c_int_range (trunc_toward_zero py)"
    and "c_int_range (rect_x r + trunc_toward_zero px)"
    and "c_int_range (rect_y r + trunc_toward_zero py)"
  shows "move_ip r (Finite px) (Finite py) =
    r\<lparr>rect_x := rect_x r + trunc_toward_zero px, rect_y := rect_y r + trunc_toward_zero py\<rparr>"
  using assms by (simp add: move_ip_def c_int_wrap_in_range)

lemma update_in_range:
  assumes "float_mul_int (vec_x (velocity el)) dt = Inr (Finite px)"
    and "float_mul_int (vec_y (velocity el)) dt = Inr (Finite py)"
    and "c_int_range (trunc_toward_zero px)" and "c_int_range (trunc_toward_zero py)"
    and "c_int_range (rect_x (rect el) + trunc_toward_zero px)"
    and "c_int_range (rect_y (rect el) + trunc_toward_zero py)"
  shows "update el dt = Inr (translated el (trunc_toward_zero px) (trunc_toward_zero py))"
  using update_Inr [OF assms(1,2)] move_ip_in_range [OF assms(3-6)]
  by (simp add: translated_def)

lemma c_int_range_2_53: "c_int_range m \<Longrightarrow> \<bar>m\<bar> \<le> 2 ^ 53"
  by (simp add: c_int_range_def) linarith

lemma update_exact:
  assumes "vec_x (velocity el) = Finite vx" and "vec_y (velocity el) = Finite vy"
    and "\<bar>dt\<bar> \<le> 2 ^ 53"
    and "vx * of_int dt = of_int mx" and "vy * of_int dt = of_int my"
    and "c_int_range mx" and "c_int_range my"
    and "c_int_range (rect_x (rect el) + mx)" and "c_int_range (rect_y (rect el) + my)"
  shows "update el dt = Inr (translated el mx my)"
proof -
  have "float_mul_int (vec_x (velocity el)) dt = Inr (Finite (of_int mx))"
    unfolding assms(1)
    by (rule float_mul_int_exact [OF assms(3,4) c_int_range_2_53 [OF assms(6)]])
  moreover have "float_mul_int (vec_y (velocity el)) dt = Inr (Finite (of_int my))"
    unfolding assms(2)
    by (rule float_mul_int_exact [OF assms(3,5) c_int_range_2_53 [OF assms(7)]])
  ultimately have "update el dt =
      Inr (translated el (trunc_toward_zero (of_int mx)) (trunc_toward_zero (of_int my)))"
    using assms(6-9) by (intro update_in_range) (simp_all add: trunc_toward_zero_of_int)
  then show ?thesis by (simp add: trunc_toward_zero_of_int)
qed

lemma update_too_large:
  "2 ^ 1024 \<le> \<bar>dt\<bar> \<Longrightarrow>
   update el dt = Inl (OverflowError ''int too large to convert to float'')"
  by (simp add: update_Inl float_of_int_overflow)

text \<open>The elements of the examples.\<close>

lemma c_int_range_examples:
  "c_int_range 0" "c_int_range 1" "c_int_range (- 1)" "c_int_range 2" "c_int_range 3"
  "c_int_range 10" "c_int_range (- 5)" "c_int_range 20" "c_int_range (- 10)"
  "c_int_range 11" "c_int_range 15" "c_int_range 19" "c_int_range 40" "c_int_range 5"
  "c_int_range 30" "c_int_range (- 15)"
  by (simp_all add: c_int_range_def)

lemma scenario_construction:
  "GameElement_init ''GameElement'' scenario_pygame (SurfaceObject 0) 10 20 scenario_velocity True
     = Inr (scenario_element, scenario_pygame)"
  by (simp add: GameElement_init_def scenario_pygame_def scenario_element_def get_rect_def)

lemma scenario_update_100:
  "update scenario_element 100 = Inr (translated scenario_element 10 (- 5))"
proof -
  have "update scenario_element 100 =
      Inr (translated scenario_element (trunc_toward_zero 10) (trunc_toward_zero (- 5)))"
    by (rule update_in_range)
      (simp_all add: scenario_element_def scenario_velocity_def scenario_product_x_100
        scenario_product_y_100 trunc_toward_zero_def c_int_range_def)
  then show ?thesis by (simp add: trunc_toward_zero_def)
qed

lemma scenario_update_100_200:
  "update (translated scenario_element 10 (- 5)) 200 = Inr (translated scenario_element 30 (- 15))"
proof -
  have "update (translated scenario_element 10 (- 5)) 200 =
      Inr (translated (translated scenario_element 10 (- 5))
        (trunc_toward_zero 20) (trunc_toward_zero (- 10)))"
    by (rule update_in_range)
      (simp_all add: translated_def scenario_element_def scenario_velocity_def
        scenario_product_x_200 scenario_product_y_200 trunc_toward_zero_def c_int_range_def)
  then show ?thesis by (simp add: trunc_toward_zero_def translated_translated)
qed

lemma scenario_positions:
  "topleft (rect scenario_element) = (10, 20)"
  "rect_size (rect scenario_element) = (32, 16)"
  "topleft (rect (translated scenario_element 10 (- 5))) = (20, 15)"
  "topleft (rect (translated scenario_element 30 (- 15))) = (40, 5)"
  by (simp_all add: translated_fields) (simp_all add: scenario_element_def topleft_def rect_size_def)

lemma slow_construction:
  "GameElement_init ''GameElement'' scenario_pygame (SurfaceObject 0) 0 0
       \<lparr>vec_x = Finite (1 / 2), vec_y = Finite 0\<rparr> True
     = Inr (slow_element, scenario_pygame)"
  by (simp add: GameElement_init_def scenario_pygame_def slow_element_def get_rect_def)

lemma translated_0: "translated el 0 0 = el"
  by (simp add: translated_def)

lemma slow_update_1: "update slow_element 1 = Inr slow_element"
proof -
  have "update slow_element 1 =
      Inr (translated slow_element (trunc_toward_zero (1 / 2)) (trunc_toward_zero 0))"
    by (rule update_in_range)
      (simp_all add: slow_element_def float_mul_int_half_1 float_mul_int_0_1
        trunc_toward_zero_examples trunc_toward_zero_0 c_int_range_def)
  then show ?thesis
    by (simp add: trunc_toward_zero_examples trunc_toward_zero_0 translated_0)
qed

lemma diagonal_update_6:
  "update diagonal_element 6 = Inr (translated diagonal_element 1 (- 4))"
proof -
  have "update diagonal_element 6 =
      Inr (translated diagonal_element (trunc_toward_zero (3 / 2)) (trunc_toward_zero (- (9 / 2))))"
    by (rule update_in_range)
      (simp_all add: diagonal_element_def float_mul_int_diagonal
        trunc_toward_zero_examples c_int_range_def)
  then show ?thesis by (simp add: trunc_toward_zero_examples)
qed

lemma diagonal_update_2:
  "update diagonal_element 2 = Inr (translated diagonal_element 0 (- 1))"
proof -
  have "update diagonal_element 2 =
      Inr (translated diagonal_element (trunc_toward_zero (1 / 2)) (trunc_toward_zero (- (3 / 2))))"
    by (rule update_in_range)
      (simp_all add: diagonal_element_def float_mul_int_diagonal
        trunc_toward_zero_examples c_int_range_def)
  then show ?thesis by (simp add: trunc_toward_zero_examples)
qed

lemma fast_update_1:
  "update fast_element 1 =
     Inr (fast_element\<lparr>rect := (rect fast_element)\<lparr>rect_x := - 2147483648\<rparr>\<rparr>)"
proof -
  have "update fast_element 1 =
      Inr (fast_element\<lparr>rect := move_ip (rect fast_element) (Finite 3000000000) (Finite 0)\<rparr>)"
    by (rule update_Inr) (simp_all add: fast_element_def float_mul_int_fast float_mul_int_0_1)
  moreover have "trunc_toward_zero 3000000000 = 3000000000"
    using trunc_toward_zero_of_int [of 3000000000] by simp
  ultimately show ?thesis
    by (simp add: move_ip_def fast_element_def trunc_toward_zero_0 c_int_range_def c_int_wrap_def)
qed


section \<open>Facts about construction and about sequences of calls\<close>

lemma init_uninitialized:
  "\<not> get_init pg \<Longrightarrow>
   GameElement_init cls pg img x y vel coll = Inl (RuntimeError (not_initialized_message cls))"
  by (simp add: GameElement_init_def)

lemma init_ValueError_initialized:
  "GameElement_init cls pg img x y vel coll = Inl (ValueError msg) \<Longrightarrow> get_init pg"
  by (auto simp: GameElement_init_def split: if_splits image_arg.splits option.splits)

lemma init_other_object:
  "get_init pg \<Longrightarrow>
   GameElement_init cls pg OtherObject x y vel coll = Inl (ValueError bad_image_message)"
  by (simp add: GameElement_init_def)

lemma init_success:
  assumes "GameElement_init cls pg img x y vel coll = Inr (el, pg')"
  shows "rect el = get_rect (surfaces pg' (image_surface el)) (x, y)"
    and "velocity el = vel" and "collidable el = coll"
    and "\<forall>p. img = Path p \<longrightarrow> image_load pg p = Some (surfaces pg' (image_surface el))"
    and "\<forall>h. img = SurfaceObject h \<longrightarrow> image_surface el = h \<and> pg' = pg"
  using assms
  by (auto simp: GameElement_init_def split: if_splits image_arg.splits option.splits)

lemma class_name_in_message: "sublist cls (not_initialized_message cls)"
  unfolding not_initialized_message_def by (rule sublist_appendI)

lemma not_initialized_message_GameElement:
  "not_initialized_message ''GameElement'' =
     ''Pygame must be initialized before creating a GameElement object. Please call pygame.init() before using this class.''"
  by (simp add: not_initialized_message_def)

lemma uninitialized_pygame_get_init: "\<not> get_init uninitialized_pygame"
  by (simp add: uninitialized_pygame_def)

lemma scenario_pygame_get_init: "get_init scenario_pygame"
  by (simp add: scenario_pygame_def)

lemma path_construction:
  "GameElement_init ''GameElement'' scenario_pygame (Path ''ship.png'') 10 20 scenario_velocity True
     = Inr (scenario_element\<lparr>image_surface := 2\<rparr>,
            scenario_pygame\<lparr>surfaces := (surfaces scenario_pygame)(2 := Surface 32 16 []),
                            next_ref := 3\<rparr>)"
  by (simp add: GameElement_init_def scenario_pygame_def scenario_element_def get_rect_def)

lemma call_method_keeps:
  assumes "call_method c (el, pg) = (el', pg')"
  shows "rect_size (rect el') = rect_size (rect el)"
    and "image_surface el' = image_surface el"
    and "get_size (surfaces pg' h) = get_size (surfaces pg h)"
proof -
  show "rect_size (rect el') = rect_size (rect el)"
    using assms
    by (cases c)
      (auto simp: update_Inr_keeps collided_with_def draw_def split: sum.splits)
  show "image_surface el' = image_surface el"
    using assms
    by (cases c)
      (auto simp: update_Inr_keeps collided_with_def draw_def split: sum.splits)
  show "get_size (surfaces pg' h) = get_size (surfaces pg h)"
    using assms
    by (cases c)
      (auto simp: collided_with_def draw_def get_size_def blit_def split: sum.splits)
qed

lemma call_methods_keep:
  "call_methods cs (el, pg) = (el', pg') \<Longrightarrow>
   rect_size (rect el') = rect_size (rect el) \<and> image_surface el' = image_surface el \<and>
   (\<forall>h. get_size (surfaces pg' h) = get_size (surfaces pg h))"
proof (induction cs arbitrary: el pg)
  case Nil
  then show ?case by simp
next
  case (Cons c cs)
  obtain el1 pg1 where step: "call_method c (el, pg) = (el1, pg1)"
    by (cases "call_method c (el, pg)")
  with Cons.prems have "call_methods cs (el1, pg1) = (el', pg')" by simp
  from Cons.IH [OF this] call_method_keeps [OF step] show ?case by simp
qed

lemma scenario_calls_element:
  "fst (call_methods scenario_calls (scenario_element, scenario_pygame)) =
     translated scenario_element 30 (- 15)"
  by (simp add: scenario_calls_def collided_with_def draw_def scenario_update_100
      scenario_update_100_200)


section \<open>Claims about construction\<close>

text \<open>
  C2: for every construction of a GameElement with position arguments x, y that succeeds,
  immediately afterwards \<open>rect.topleft\<close> is (x, y) and \<open>rect.size\<close> is the size of the
  element's image: \<open>rect\<close> is the image's own rectangle with its top-left corner at (x, y).
  The image is the surface that was passed in, or the one loaded from the path.
\<close>

theorem construction_sets_rect:
  assumes "GameElement_init cls pg img x y vel coll = Inr (el, pg')"
  shows "topleft (rect el) = (x, y) \<and>
         rect_size (rect el) = get_size (surfaces pg' (image_surface el)) \<and>
         rect el = get_rect (surfaces pg' (image_surface el)) (x, y) \<and>
         (\<forall>p. img = Path p \<longrightarrow> image_load pg p = Some (surfaces pg' (image_surface el))) \<and>
         (\<forall>h. img = SurfaceObject h \<longrightarrow> image_surface el = h \<and> pg' = pg)"
proof -
  have r: "rect el = get_rect (surfaces pg' (image_surface el)) (x, y)"
    by (rule init_success(1) [OF assms])
  have "topleft (rect el) = (x, y)"
    and "rect_size (rect el) = get_size (surfaces pg' (image_surface el))"
    unfolding r by (simp_all add: get_rect_def topleft_def rect_size_def get_size_def)
  with r init_success(4,5) [OF assms] show ?thesis by blast
qed

theorem construction_sets_rect_witness:
  "GameElement_init ''GameElement'' scenario_pygame (SurfaceObject 0) 10 20 scenario_velocity True
     = Inr (scenario_element, scenario_pygame) \<and>
   topleft (rect scenario_element) = (10, 20) \<and>
   rect_size (rect scenario_element) = get_size (surfaces scenario_pygame 0) \<and>
   get_size (surfaces scenario_pygame 0) = (32, 16) \<and>
   GameElement_init ''GameElement'' scenario_pygame (Path ''ship.png'') 10 20 scenario_velocity True
     = Inr (scenario_element\<lparr>image_surface := 2\<rparr>,
            scenario_pygame\<lparr>surfaces := (surfaces scenario_pygame)(2 := Surface 32 16 []),
                            next_ref := 3\<rparr>) \<and>
   topleft (rect (scenario_element\<lparr>image_surface := 2\<rparr>)) = (10, 20) \<and>
   rect_size (rect (scenario_element\<lparr>image_surface := 2\<rparr>)) = get_size (Surface 32 16 []) \<and>
   image_load scenario_pygame ''ship.png'' = Some (Surface 32 16 [])"
proof -
  note from_surface = construction_sets_rect [OF scenario_construction]
  note from_path = construction_sets_rect [OF path_construction]
  have image: "image_surface scenario_element = 0"
    by (simp add: scenario_element_def)
  have size: "get_size (surfaces scenario_pygame 0) = (32, 16)"
    by (simp add: scenario_pygame_def get_size_def)
  have loaded: "image_load scenario_pygame ''ship.png'' = Some (Surface 32 16 [])"
    by (simp add: scenario_pygame_def)
  have 1: "topleft (rect scenario_element) = (10, 20)"
    using from_surface by blast
  have "rect_size (rect scenario_element) =
      get_size (surfaces scenario_pygame (image_surface scenario_element))"
    using from_surface by blast
  then have 2: "rect_size (rect scenario_element) = get_size (surfaces scenario_pygame 0)"
    by (simp only: image)
  have 3: "topleft (rect (scenario_element\<lparr>image_surface := 2\<rparr>)) = (10, 20)"
    using from_path by blast
  have "rect_size (rect (scenario_element\<lparr>image_surface := 2\<rparr>)) =
      get_size (surfaces
        (scenario_pygame\<lparr>surfaces := (surfaces scenario_pygame)(2 := Surface 32 16 []),
                         next_ref := 3\<rparr>)
        (image_surface (scenario_element\<lparr>image_surface := 2\<rparr>)))"
    using from_path by blast
  then have 4: "rect_size (rect (scenario_element\<lparr>image_surface := 2\<rparr>)) =
      get_size (Surface 32 16 [])"
    by simp
  show ?thesis
    by (intro conjI scenario_construction path_construction 1 2 3 4 size loaded)
qed

text \<open>
  C4: if pygame is not initialised when a GameElement is constructed, the construction
  fails with the RuntimeError (the specification's UninitializedSubsystem) whose message
  contains the name of the class being constructed, whatever the other arguments are.
\<close>

theorem construction_before_init_fails:
  assumes "\<not> get_init pg"
  shows "GameElement_init cls pg img x y vel coll
           = Inl (RuntimeError (not_initialized_message cls)) \<and>
         sublist cls (not_initialized_message cls)"
  using assms by (simp add: init_uninitialized class_name_in_message)

theorem construction_before_init_fails_witness:
  "\<not> get_init uninitialized_pygame \<and>
   GameElement_init ''GameElement'' uninitialized_pygame (Path ''ship.png'') 10 20
       scenario_velocity True
     = Inl (RuntimeError ''Pygame must be initialized before creating a GameElement object. Please call pygame.init() before using this class.'') \<and>
   sublist ''GameElement'' (not_initialized_message ''GameElement'')"
  using construction_before_init_fails [OF uninitialized_pygame_get_init,
      of "''GameElement''" "Path ''ship.png''" 10 20 scenario_velocity True]
    uninitialized_pygame_get_init
  by (simp add: not_initialized_message_GameElement)

text \<open>
  C5, as stated, at a counterexample: the claim has construction fail with the ValueError
  (the specification's InvalidArgument) for every image argument that is neither a string
  nor a surface. Before \<open>pygame.init()\<close> such an argument fails with the RuntimeError
  instead: the image is never looked at.
\<close>

theorem invalid_image_before_init_counterexample:
  "GameElement_init ''GameElement'' uninitialized_pygame OtherObject 0 0
       \<lparr>vec_x = Finite 0, vec_y = Finite 0\<rparr> True
     = Inl (RuntimeError (not_initialized_message ''GameElement'')) \<and>
   GameElement_init ''GameElement'' uninitialized_pygame OtherObject 0 0
       \<lparr>vec_x = Finite 0, vec_y = Finite 0\<rparr> True
     \<noteq> Inl (ValueError bad_image_message)"
  by (simp add: init_uninitialized uninitialized_pygame_get_init)

text \<open>
  C5, amended: when pygame is initialised, for every image argument that is neither a
  string (file path) nor a surface, GameElement construction fails with the ValueError
  (the specification's InvalidArgument).
\<close>

theorem invalid_image_fails:
  assumes "get_init pg" and "\<forall>p. img \<noteq> Path p" and "\<forall>h. img \<noteq> SurfaceObject h"
  shows "GameElement_init cls pg img x y vel coll = Inl (ValueError bad_image_message)"
  using assms by (cases img) (simp_all add: init_other_object)

theorem invalid_image_fails_witness:
  "get_init scenario_pygame \<and> (\<forall>p. OtherObject \<noteq> Path p) \<and>
   (\<forall>h. OtherObject \<noteq> SurfaceObject h) \<and>
   GameElement_init ''GameElement'' scenario_pygame OtherObject 10 20 scenario_velocity True
     = Inl (ValueError ''The image parameter must be either a file path or a pygame.Surface object.'')"
proof -
  have a: "\<forall>p. OtherObject \<noteq> Path p" and b: "\<forall>h. OtherObject \<noteq> SurfaceObject h"
    by simp_all
  show ?thesis
    using invalid_image_fails [OF scenario_pygame_get_init a b,
        of "''GameElement''" 10 20 scenario_velocity True]
      scenario_pygame_get_init
    by (simp add: bad_image_message_def)
qed

text \<open>
  C9: the check that pygame is initialised comes before the image argument is examined.
  If pygame is not initialised and the image argument is invalid as well, the
  RuntimeError (UninitializedSubsystem) is raised, not the ValueError (InvalidArgument);
  and whenever construction fails with the ValueError, pygame is initialised.
\<close>

theorem init_check_precedes_image_check:
  "(\<not> get_init pg \<longrightarrow>
      GameElement_init cls pg OtherObject x y vel coll
        = Inl (RuntimeError (not_initialized_message cls)) \<and>
      GameElement_init cls pg OtherObject x y vel coll \<noteq> Inl (ValueError msg)) \<and>
   (GameElement_init cls pg img x y vel coll = Inl (ValueError msg) \<longrightarrow> get_init pg)"
  by (auto simp: init_uninitialized dest: init_ValueError_initialized)

theorem init_check_precedes_image_check_witness:
  "\<not> get_init uninitialized_pygame \<and>
   GameElement_init ''GameElement'' uninitialized_pygame OtherObject 10 20 scenario_velocity True
     = Inl (RuntimeError (not_initialized_message ''GameElement'')) \<and>
   GameElement_init ''GameElement'' scenario_pygame OtherObject 10 20 scenario_velocity True
     = Inl (ValueError bad_image_message) \<and>
   get_init scenario_pygame"
proof -
  have v: "GameElement_init ''GameElement'' scenario_pygame OtherObject 10 20
      scenario_velocity True = Inl (ValueError bad_image_message)"
    by (rule init_other_object [OF scenario_pygame_get_init])
  show ?thesis
    using init_check_precedes_image_check [of uninitialized_pygame "''GameElement''" 10 20
        scenario_velocity True bad_image_message OtherObject]
      init_check_precedes_image_check [of scenario_pygame "''GameElement''" 10 20
        scenario_velocity True bad_image_message OtherObject]
      uninitialized_pygame_get_init v
    by blast
qed


section \<open>Claims about the element after construction\<close>

text \<open>
  C6: for every GameElement and every sequence of calls of the base operations
  \<open>update\<close>, \<open>collided_with\<close> (the element being the receiver or the argument) and \<open>draw\<close>
  after its construction, the width and height of \<open>rect\<close> are those of the element's image,
  and they are the ones \<open>rect\<close> had when it was constructed: neither the size of \<open>rect\<close>, nor
  the image the element refers to, nor the dimensions of that image change.
\<close>

theorem rect_size_is_image_size_for_life:
  assumes "GameElement_init cls pg img x y vel coll = Inr (el, pg1)"
    and "call_methods cs (el, pg1) = (el', pg')"
  shows "rect_size (rect el') = get_size (surfaces pg' (image_surface el')) \<and>
         rect_size (rect el') = rect_size (rect el) \<and>
         image_surface el' = image_surface el \<and>
         get_size (surfaces pg' (image_surface el')) = get_size (surfaces pg1 (image_surface el))"
proof -
  have "rect el = get_rect (surfaces pg1 (image_surface el)) (x, y)"
    by (rule init_success(1) [OF assms(1)])
  then have "rect_size (rect el) = get_size (surfaces pg1 (image_surface el))"
    by (simp add: get_rect_def rect_size_def get_size_def)
  with call_methods_keep [OF assms(2)] show ?thesis by simp
qed

theorem rect_size_is_image_size_for_life_witness:
  "GameElement_init ''GameElement'' scenario_pygame (SurfaceObject 0) 10 20 scenario_velocity True
     = Inr (scenario_element, scenario_pygame) \<and>
   topleft (rect (fst (call_methods scenario_calls (scenario_element, scenario_pygame))))
     = (40, 5) \<and>
   rect_size (rect (fst (call_methods scenario_calls (scenario_element, scenario_pygame))))
     = (32, 16) \<and>
   get_size (surfaces (snd (call_methods scenario_calls (scenario_element, scenario_pygame)))
       (image_surface (fst (call_methods scenario_calls (scenario_element, scenario_pygame)))))
     = (32, 16)"
proof -
  have run: "call_methods scenario_calls (scenario_element, scenario_pygame) =
      (fst (call_methods scenario_calls (scenario_element, scenario_pygame)),
       snd (call_methods scenario_calls (scenario_element, scenario_pygame)))"
    by simp
  have size: "rect_size (rect scenario_element) = (32, 16)"
    by (simp add: scenario_element_def rect_size_def)
  have pos: "topleft (rect (fst (call_methods scenario_calls (scenario_element, scenario_pygame))))
      = (40, 5)"
    by (simp only: scenario_calls_element scenario_positions)
  note life = rect_size_is_image_size_for_life [OF scenario_construction run]
  have "rect_size (rect (fst (call_methods scenario_calls (scenario_element, scenario_pygame))))
      = rect_size (rect scenario_element)"
    using life by blast
  then have 1:
    "rect_size (rect (fst (call_methods scenario_calls (scenario_element, scenario_pygame))))
      = (32, 16)"
    by (simp only: size)
  have "rect_size (rect (fst (call_methods scenario_calls (scenario_element, scenario_pygame))))
      = get_size
         (surfaces (snd (call_methods scenario_calls (scenario_element, scenario_pygame)))
           (image_surface
             (fst (call_methods scenario_calls (scenario_element, scenario_pygame)))))"
    using life by blast
  then have 2: "get_size
      (surfaces (snd (call_methods scenario_calls (scenario_element, scenario_pygame)))
        (image_surface (fst (call_methods scenario_calls (scenario_element, scenario_pygame)))))
      = (32, 16)"
    by (simp only: 1)
  show ?thesis
    by (intro conjI scenario_construction pos 1 2)
qed

text \<open>
  C7: for every pair of GameElements, the base \<open>collided_with\<close> called on one with the
  other as argument changes none of \<open>rect\<close>, \<open>velocity\<close> and \<open>collidable\<close> of either: both
  objects are after the call what they were before it.
\<close>

theorem collided_with_changes_nothing:
  "collided_with self other = (self, other) \<and>
   rect (fst (collided_with self other)) = rect self \<and>
   velocity (fst (collided_with self other)) = velocity self \<and>
   collidable (fst (collided_with self other)) = collidable self \<and>
   rect (snd (collided_with self other)) = rect other \<and>
   velocity (snd (collided_with self other)) = velocity other \<and>
   collidable (snd (collided_with self other)) = collidable other"
  by (simp add: collided_with_def)

text \<open>
  C8: for every GameElement and every screen surface, \<open>draw(screen)\<close> changes none of the
  element's fields \<open>rect\<close>, \<open>velocity\<close>, \<open>image\<close> and \<open>collidable\<close>. Its only effect is on the
  surface \<open>screen\<close>: the element's image is blitted onto it at the current top-left corner
  of \<open>rect\<close>, which adds one blit to those the screen has received and leaves its
  dimensions; every other surface, and the rest of pygame's state, is as before.
\<close>

theorem draw_only_blits_image_on_screen:
  "fst (draw self screen pg) = self \<and>
   rect (fst (draw self screen pg)) = rect self \<and>
   velocity (fst (draw self screen pg)) = velocity self \<and>
   image_surface (fst (draw self screen pg)) = image_surface self \<and>
   collidable (fst (draw self screen pg)) = collidable self \<and>
   surfaces (snd (draw self screen pg)) screen =
     blit (surfaces pg screen) (surfaces pg (image_surface self)) (topleft (rect self)) \<and>
   blits (surfaces (snd (draw self screen pg)) screen) =
     blits (surfaces pg screen) @ [(surfaces pg (image_surface self), topleft (rect self))] \<and>
   get_size (surfaces (snd (draw self screen pg)) screen) = get_size (surfaces pg screen) \<and>
   (\<forall>h. h \<noteq> screen \<longrightarrow> surfaces (snd (draw self screen pg)) h = surfaces pg h) \<and>
   get_init (snd (draw self screen pg)) = get_init pg \<and>
   image_load (snd (draw self screen pg)) = image_load pg \<and>
   next_ref (snd (draw self screen pg)) = next_ref pg"
  by (simp add: draw_def blit_def get_size_def)

theorem draw_only_blits_image_on_screen_witness:
  "(0::nat) \<noteq> 1 \<and>
   surfaces (snd (draw scenario_element 1 scenario_pygame)) 0 = surfaces scenario_pygame 0 \<and>
   surfaces (snd (draw scenario_element 1 scenario_pygame)) 1 =
     Surface 640 480 [(Surface 32 16 [], (10, 20))]"
proof -
  have "blit (surfaces scenario_pygame 1)
      (surfaces scenario_pygame (image_surface scenario_element))
      (topleft (rect scenario_element)) = Surface 640 480 [(Surface 32 16 [], (10, 20))]"
    by (simp add: scenario_pygame_def scenario_element_def blit_def topleft_def)
  then show ?thesis
    using draw_only_blits_image_on_screen [of scenario_element 1 scenario_pygame]
    by simp
qed


section \<open>Claims about update\<close>

text \<open>
  C1, as stated, at a counterexample: the claim has \<open>update(dt)\<close> translate the top-left
  corner by exactly \<open>(vx * dt, vy * dt)\<close>. The element \<open>slow_element\<close> has velocity
  (0.5, 0) and stands at (0, 0); the float product \<open>0.5 * 1\<close> is 0.5, and \<open>update(1)\<close>
  returns the element as it was, at x = 0 and not at 0 + 0.5.
\<close>

theorem update_exact_translation_counterexample:
  "GameElement_init ''GameElement'' scenario_pygame (SurfaceObject 0) 0 0
       \<lparr>vec_x = Finite (1 / 2), vec_y = Finite 0\<rparr> True
     = Inr (slow_element, scenario_pygame) \<and>
   topleft (rect slow_element) = (0, 0) \<and>
   float_mul_int (vec_x (velocity slow_element)) 1 = Inr (Finite (1 / 2)) \<and>
   update slow_element 1 = Inr slow_element \<and>
   rat_of_int (rect_x (rect slow_element)) \<noteq>
     rat_of_int (rect_x (rect slow_element)) + 1 / 2 * rat_of_int 1"
proof -
  have "topleft (rect slow_element) = (0, 0)"
    by (simp add: slow_element_def topleft_def)
  moreover have "float_mul_int (vec_x (velocity slow_element)) 1 = Inr (Finite (1 / 2))"
    by (simp add: slow_element_def float_mul_int_half_1)
  moreover have "rat_of_int (rect_x (rect slow_element)) \<noteq>
      rat_of_int (rect_x (rect slow_element)) + 1 / 2 * rat_of_int 1"
    by simp
  ultimately show ?thesis
    by (intro conjI slow_construction slow_update_1)
qed

text \<open>
  C1, amended: for every GameElement and every dt whose float products \<open>vx * dt\<close> and
  \<open>vy * dt\<close> are finite and, truncated toward zero, fit a C int, as do the new
  coordinates, \<open>update(dt)\<close> returns, with the top-left corner of \<open>rect\<close> translated in place
  by those truncated products (integers no larger in magnitude than the products and less
  than 1 away from them) and nothing else of the element changed, the size of \<open>rect\<close>
  included. The translation is exactly \<open>(vx * dt, vy * dt)\<close> in each coordinate whose float
  product is a whole number; and where the velocity is finite, dt is at most \<open>2 ^ 53\<close> in
  magnitude and the exact products are whole numbers that fit a C int, as do the new
  coordinates, the translation is by exactly those products. In particular, the 32x16
  element constructed at (10, 20) with velocity (0.1, -0.05) is at (20, 15) after
  \<open>update(100)\<close> and at (40, 5) after a further \<open>update(200)\<close>.
\<close>

theorem update_translates_by_truncated_products:
  "(float_mul_int (vec_x (velocity el)) dt = Inr (Finite px) \<and>
    float_mul_int (vec_y (velocity el)) dt = Inr (Finite py) \<and>
    c_int_range (trunc_toward_zero px) \<and> c_int_range (trunc_toward_zero py) \<and>
    c_int_range (rect_x (rect el) + trunc_toward_zero px) \<and>
    c_int_range (rect_y (rect el) + trunc_toward_zero py) \<longrightarrow>
      update el dt = Inr (translated el (trunc_toward_zero px) (trunc_toward_zero py)) \<and>
      topleft (rect (translated el (trunc_toward_zero px) (trunc_toward_zero py))) =
        (rect_x (rect el) + trunc_toward_zero px, rect_y (rect el) + trunc_toward_zero py) \<and>
      rect_size (rect (translated el (trunc_toward_zero px) (trunc_toward_zero py))) =
        rect_size (rect el) \<and>
      velocity (translated el (trunc_toward_zero px) (trunc_toward_zero py)) = velocity el \<and>
      image_surface (translated el (trunc_toward_zero px) (trunc_toward_zero py)) =
        image_surface el \<and>
      collidable (translated el (trunc_toward_zero px) (trunc_toward_zero py)) =
        collidable el \<and>
      (px \<in> \<int> \<longrightarrow>
         rat_of_int (rect_x (rect (translated el (trunc_toward_zero px) (trunc_toward_zero py))))
           = rat_of_int (rect_x (rect el)) + px) \<and>
      (py \<in> \<int> \<longrightarrow>
         rat_of_int (rect_y (rect (translated el (trunc_toward_zero px) (trunc_toward_zero py))))
           = rat_of_int (rect_y (rect el)) + py)) \<and>
   (vec_x (velocity el) = Finite vx \<and> vec_y (velocity el) = Finite vy \<and> \<bar>dt\<bar> \<le> 2 ^ 53 \<and>
    vx * of_int dt = of_int mx \<and> vy * of_int dt = of_int my \<and>
    c_int_range mx \<and> c_int_range my \<and>
    c_int_range (rect_x (rect el) + mx) \<and> c_int_range (rect_y (rect el) + my) \<longrightarrow>
      update el dt = Inr (translated el mx my) \<and>
      rat_of_int (rect_x (rect (translated el mx my))) =
        rat_of_int (rect_x (rect el)) + vx * of_int dt \<and>
      rat_of_int (rect_y (rect (translated el mx my))) =
        rat_of_int (rect_y (rect el)) + vy * of_int dt) \<and>
   \<bar>rat_of_int (trunc_toward_zero px)\<bar> \<le> \<bar>px\<bar> \<and> \<bar>px - rat_of_int (trunc_toward_zero px)\<bar> < 1 \<and>
   \<bar>rat_of_int (trunc_toward_zero py)\<bar> \<le> \<bar>py\<bar> \<and> \<bar>py - rat_of_int (trunc_toward_zero py)\<bar> < 1 \<and>
   GameElement_init ''GameElement'' scenario_pygame (SurfaceObject 0) 10 20 scenario_velocity True
     = Inr (scenario_element, scenario_pygame) \<and>
   scenario_velocity =
     \<lparr>vec_x = Finite (float_round (1 / 10)), vec_y = Finite (float_round (- (1 / 20)))\<rparr> \<and>
   topleft (rect scenario_element) = (10, 20) \<and>
   rect_size (rect scenario_element) = (32, 16) \<and>
   update scenario_element 100 = Inr (translated scenario_element 10 (- 5)) \<and>
   topleft (rect (translated scenario_element 10 (- 5))) = (20, 15) \<and>
   update (translated scenario_element 10 (- 5)) 200 = Inr (translated scenario_element 30 (- 15)) \<and>
   topleft (rect (translated scenario_element 30 (- 15))) = (40, 5)"
proof -
  have A: "update el dt = Inr (translated el (trunc_toward_zero px) (trunc_toward_zero py))"
    if "float_mul_int (vec_x (velocity el)) dt = Inr (Finite px)"
      "float_mul_int (vec_y (velocity el)) dt = Inr (Finite py)"
      "c_int_range (trunc_toward_zero px)" "c_int_range (trunc_toward_zero py)"
      "c_int_range (rect_x (rect el) + trunc_toward_zero px)"
      "c_int_range (rect_y (rect el) + trunc_toward_zero py)"
    using that by (rule update_in_range)
  have A2: "topleft (rect (translated el a b)) = (rect_x (rect el) + a, rect_y (rect el) + b)"
    "rect_size (rect (translated el a b)) = rect_size (rect el)"
    "velocity (translated el a b) = velocity el"
    "image_surface (translated el a b) = image_surface el"
    "collidable (translated el a b) = collidable el" for a b
    by (simp_all add: translated_fields)
  have A3: "rat_of_int (rect_x (rect (translated el (trunc_toward_zero px) b))) =
      rat_of_int (rect_x (rect el)) + px" if "px \<in> \<int>" for b
    using that by (simp add: translated_def trunc_toward_zero_Ints)
  have A4: "rat_of_int (rect_y (rect (translated el a (trunc_toward_zero py)))) =
      rat_of_int (rect_y (rect el)) + py" if "py \<in> \<int>" for a
    using that by (simp add: translated_def trunc_toward_zero_Ints)
  have B: "update el dt = Inr (translated el mx my)"
    if "vec_x (velocity el) = Finite vx" "vec_y (velocity el) = Finite vy" "\<bar>dt\<bar> \<le> 2 ^ 53"
      "vx * of_int dt = of_int mx" "vy * of_int dt = of_int my"
      "c_int_range mx" "c_int_range my"
      "c_int_range (rect_x (rect el) + mx)" "c_int_range (rect_y (rect el) + my)"
    using that by (rule update_exact)
  have B2: "rat_of_int (rect_x (rect (translated el mx my))) =
      rat_of_int (rect_x (rect el)) + vx * of_int dt" if "vx * of_int dt = of_int mx"
    using that by (simp add: translated_def)
  have B3: "rat_of_int (rect_y (rect (translated el mx my))) =
      rat_of_int (rect_y (rect el)) + vy * of_int dt" if "vy * of_int dt = of_int my"
    using that by (simp add: translated_def)
  have S: "scenario_velocity =
      \<lparr>vec_x = Finite (float_round (1 / 10)), vec_y = Finite (float_round (- (1 / 20)))\<rparr>"
    by (simp add: scenario_velocity_def)
  show ?thesis
    using A A2 A3 A4 B B2 B3 S scenario_construction scenario_positions scenario_update_100
      scenario_update_100_200 trunc_toward_zero_bounds [of px] trunc_toward_zero_bounds [of py]
    by blast
qed

theorem update_translates_by_truncated_products_witness:
  "float_mul_int (vec_x (velocity scenario_element)) 100 = Inr (Finite 10) \<and>
   float_mul_int (vec_y (velocity scenario_element)) 100 = Inr (Finite (- 5)) \<and>
   c_int_range (trunc_toward_zero 10) \<and> c_int_range (trunc_toward_zero (- 5)) \<and>
   c_int_range (rect_x (rect scenario_element) + trunc_toward_zero 10) \<and>
   c_int_range (rect_y (rect scenario_element) + trunc_toward_zero (- 5)) \<and>
   (10 :: rat) \<in> \<int> \<and> (- 5 :: rat) \<in> \<int> \<and>
   update scenario_element 100 =
     Inr (translated scenario_element (trunc_toward_zero 10) (trunc_toward_zero (- 5))) \<and>
   rat_of_int (rect_x (rect (translated scenario_element
       (trunc_toward_zero 10) (trunc_toward_zero (- 5))))) =
     rat_of_int (rect_x (rect scenario_element)) + 10 \<and>
   rat_of_int (rect_y (rect (translated scenario_element
       (trunc_toward_zero 10) (trunc_toward_zero (- 5))))) =
     rat_of_int (rect_y (rect scenario_element)) + - 5 \<and>
   vec_x (velocity slow_element) = Finite (1 / 2) \<and>
   vec_y (velocity slow_element) = Finite 0 \<and> \<bar>2 :: int\<bar> \<le> 2 ^ 53 \<and>
   1 / 2 * rat_of_int 2 = rat_of_int 1 \<and> 0 * rat_of_int 2 = rat_of_int 0 \<and>
   c_int_range 1 \<and> c_int_range 0 \<and>
   c_int_range (rect_x (rect slow_element) + 1) \<and>
   c_int_range (rect_y (rect slow_element) + 0) \<and>
   update slow_element 2 = Inr (translated slow_element 1 0) \<and>
   rat_of_int (rect_x (rect (translated slow_element 1 0))) =
     rat_of_int (rect_x (rect slow_element)) + 1 / 2 * rat_of_int 2 \<and>
   float_mul_int (vec_x (velocity diagonal_element)) 6 = Inr (Finite (3 / 2)) \<and>
   float_mul_int (vec_y (velocity diagonal_element)) 6 = Inr (Finite (- (9 / 2))) \<and>
   trunc_toward_zero (3 / 2) = 1 \<and> trunc_toward_zero (- (9 / 2)) = - 4 \<and>
   c_int_range (trunc_toward_zero (3 / 2)) \<and> c_int_range (trunc_toward_zero (- (9 / 2))) \<and>
   c_int_range (rect_x (rect diagonal_element) + trunc_toward_zero (3 / 2)) \<and>
   c_int_range (rect_y (rect diagonal_element) + trunc_toward_zero (- (9 / 2))) \<and>
   update diagonal_element 6 =
     Inr (translated diagonal_element (trunc_toward_zero (3 / 2))
                                      (trunc_toward_zero (- (9 / 2)))) \<and>
   topleft (rect (translated diagonal_element (trunc_toward_zero (3 / 2))
                                              (trunc_toward_zero (- (9 / 2))))) =
     (rect_x (rect diagonal_element) + trunc_toward_zero (3 / 2),
      rect_y (rect diagonal_element) + trunc_toward_zero (- (9 / 2)))"
proof -
  have a: "float_mul_int (vec_x (velocity scenario_element)) 100 = Inr (Finite 10)"
    "float_mul_int (vec_y (velocity scenario_element)) 100 = Inr (Finite (- 5))"
    by (simp_all add: scenario_element_def scenario_velocity_def scenario_product_x_100
        scenario_product_y_100)
  have b: "c_int_range (trunc_toward_zero 10)" "c_int_range (trunc_toward_zero (- 5))"
    "c_int_range (rect_x (rect scenario_element) + trunc_toward_zero 10)"
    "c_int_range (rect_y (rect scenario_element) + trunc_toward_zero (- 5))"
    by (simp_all add: scenario_element_def trunc_toward_zero_def c_int_range_def)
  have c: "(10 :: rat) \<in> \<int>" "(- 5 :: rat) \<in> \<int>"
    by simp_all
  have d: "vec_x (velocity slow_element) = Finite (1 / 2)"
    "vec_y (velocity slow_element) = Finite 0" "\<bar>2 :: int\<bar> \<le> 2 ^ 53"
    "1 / 2 * rat_of_int 2 = rat_of_int 1" "0 * rat_of_int 2 = rat_of_int 0"
    "c_int_range 1" "c_int_range 0"
    "c_int_range (rect_x (rect slow_element) + 1)"
    "c_int_range (rect_y (rect slow_element) + 0)"
    by (simp_all add: slow_element_def c_int_range_def)
  have e: "float_mul_int (vec_x (velocity diagonal_element)) 6 = Inr (Finite (3 / 2))"
    "float_mul_int (vec_y (velocity diagonal_element)) 6 = Inr (Finite (- (9 / 2)))"
    "trunc_toward_zero (3 / 2) = 1" "trunc_toward_zero (- (9 / 2)) = - 4"
    "c_int_range (trunc_toward_zero (3 / 2))" "c_int_range (trunc_toward_zero (- (9 / 2)))"
    "c_int_range (rect_x (rect diagonal_element) + trunc_toward_zero (3 / 2))"
    "c_int_range (rect_y (rect diagonal_element) + trunc_toward_zero (- (9 / 2)))"
    by (simp_all add: diagonal_element_def float_mul_int_diagonal trunc_toward_zero_examples
        c_int_range_def)
  show ?thesis
    using a b c d e
      update_translates_by_truncated_products
        [where el = scenario_element and dt = 100 and px = 10 and py = "- 5"]
      update_translates_by_truncated_products
        [where el = slow_element and dt = 2 and vx = "1 / 2" and vy = 0 and mx = 1 and my = 0]
      update_translates_by_truncated_products
        [where el = diagonal_element and dt = 6 and px = "3 / 2" and py = "- (9 / 2)"]
    by blast
qed

text \<open>
  C3, as stated, at a counterexample: the claim has \<open>update(dt1)\<close> then \<open>update(dt2)\<close> end
  at the initial position plus \<open>(vx * (dt1 + dt2), vy * (dt1 + dt2))\<close>, for fractional
  velocities too. With velocity (0.5, 0) and dt1 = dt2 = 1 that is x = 0 + 0.5 * 2 = 1
  (the float product \<open>0.5 * 2\<close> is 1 as well); each of the two calls returns the element
  as it was, at x = 0.
\<close>

theorem update_linear_counterexample:
  "GameElement_init ''GameElement'' scenario_pygame (SurfaceObject 0) 0 0
       \<lparr>vec_x = Finite (1 / 2), vec_y = Finite 0\<rparr> True
     = Inr (slow_element, scenario_pygame) \<and>
   topleft (rect slow_element) = (0, 0) \<and>
   update slow_element 1 = Inr slow_element \<and>
   float_mul_int (vec_x (velocity slow_element)) (1 + 1) = Inr (Finite 1) \<and>
   rat_of_int (rect_x (rect slow_element)) \<noteq>
     rat_of_int (rect_x (rect slow_element)) + 1 / 2 * rat_of_int (1 + 1) \<and>
   rat_of_int (rect_x (rect slow_element)) \<noteq> rat_of_int (rect_x (rect slow_element)) + 1"
proof -
  have "topleft (rect slow_element) = (0, 0)"
    by (simp add: slow_element_def topleft_def)
  moreover have "float_mul_int (vec_x (velocity slow_element)) (1 + 1) = Inr (Finite 1)"
    by (simp add: slow_element_def float_mul_int_half_2)
  moreover have "rat_of_int (rect_x (rect slow_element)) \<noteq>
      rat_of_int (rect_x (rect slow_element)) + 1 / 2 * rat_of_int (1 + 1)"
    "rat_of_int (rect_x (rect slow_element)) \<noteq> rat_of_int (rect_x (rect slow_element)) + 1"
    by simp_all
  ultimately show ?thesis
    by (intro conjI slow_construction slow_update_1)
qed

text \<open>
  C3, amended: for every GameElement and every pair of deltas dt1, dt2 whose four float
  products with the velocity are finite and, truncated toward zero, fit a C int, as do
  the coordinates after each call, \<open>update(dt1)\<close> then \<open>update(dt2)\<close> both return and end at
  the initial position plus the sum of the two displacements, each truncated on its own:
  \<open>(trunc (vx * dt1) + trunc (vx * dt2), trunc (vy * dt1) + trunc (vy * dt2))\<close>, where
  \<open>trunc q\<close> is the integer no larger in magnitude than \<open>q\<close> and less than 1 away from it;
  the velocity is the same throughout. Where the velocity is finite, the deltas are at most
  \<open>2 ^ 53\<close> in magnitude and the four exact products are whole numbers that fit a C int, as
  do the coordinates after each call, the end position is the initial position plus
  \<open>(vx * (dt1 + dt2), vy * (dt1 + dt2))\<close>.
\<close>

theorem update_twice_adds_truncated_products:
  "(float_mul_int (vec_x (velocity el)) dt1 = Inr (Finite px1) \<and>
    float_mul_int (vec_y (velocity el)) dt1 = Inr (Finite py1) \<and>
    float_mul_int (vec_x (velocity el)) dt2 = Inr (Finite px2) \<and>
    float_mul_int (vec_y (velocity el)) dt2 = Inr (Finite py2) \<and>
    c_int_range (trunc_toward_zero px1) \<and> c_int_range (trunc_toward_zero py1) \<and>
    c_int_range (trunc_toward_zero px2) \<and> c_int_range (trunc_toward_zero py2) \<and>
    c_int_range (rect_x (rect el) + trunc_toward_zero px1) \<and>
    c_int_range (rect_y (rect el) + trunc_toward_zero py1) \<and>
    c_int_range (rect_x (rect el) + trunc_toward_zero px1 + trunc_toward_zero px2) \<and>
    c_int_range (rect_y (rect el) + trunc_toward_zero py1 + trunc_toward_zero py2) \<longrightarrow>
      update el dt1 = Inr (translated el (trunc_toward_zero px1) (trunc_toward_zero py1)) \<and>
      update (translated el (trunc_toward_zero px1) (trunc_toward_zero py1)) dt2 =
        Inr (translated el (trunc_toward_zero px1 + trunc_toward_zero px2)
                           (trunc_toward_zero py1 + trunc_toward_zero py2)) \<and>
      topleft (rect (translated el (trunc_toward_zero px1 + trunc_toward_zero px2)
                                   (trunc_toward_zero py1 + trunc_toward_zero py2))) =
        (rect_x (rect el) + (trunc_toward_zero px1 + trunc_toward_zero px2),
         rect_y (rect el) + (trunc_toward_zero py1 + trunc_toward_zero py2)) \<and>
      velocity (translated el (trunc_toward_zero px1) (trunc_toward_zero py1)) = velocity el \<and>
      velocity (translated el (trunc_toward_zero px1 + trunc_toward_zero px2)
                              (trunc_toward_zero py1 + trunc_toward_zero py2)) = velocity el) \<and>
   (vec_x (velocity el) = Finite vx \<and> vec_y (velocity el) = Finite vy \<and>
    \<bar>dt1\<bar> \<le> 2 ^ 53 \<and> \<bar>dt2\<bar> \<le> 2 ^ 53 \<and>
    vx * of_int dt1 = of_int mx1 \<and> vy * of_int dt1 = of_int my1 \<and>
    vx * of_int dt2 = of_int mx2 \<and> vy * of_int dt2 = of_int my2 \<and>
    c_int_range mx1 \<and> c_int_range my1 \<and> c_int_range mx2 \<and> c_int_range my2 \<and>
    c_int_range (rect_x (rect el) + mx1) \<and> c_int_range (rect_y (rect el) + my1) \<and>
    c_int_range (rect_x (rect el) + mx1 + mx2) \<and>
    c_int_range (rect_y (rect el) + my1 + my2) \<longrightarrow>
      update el dt1 = Inr (translated el mx1 my1) \<and>
      update (translated el mx1 my1) dt2 = Inr (translated el (mx1 + mx2) (my1 + my2)) \<and>
      rat_of_int (rect_x (rect (translated el (mx1 + mx2) (my1 + my2)))) =
        rat_of_int (rect_x (rect el)) + vx * of_int (dt1 + dt2) \<and>
      rat_of_int (rect_y (rect (translated el (mx1 + mx2) (my1 + my2)))) =
        rat_of_int (rect_y (rect el)) + vy * of_int (dt1 + dt2)) \<and>
   \<bar>rat_of_int (trunc_toward_zero q)\<bar> \<le> \<bar>q\<bar> \<and> \<bar>q - rat_of_int (trunc_toward_zero q)\<bar> < 1"
proof -
  have A: "update el dt1 = Inr (translated el (trunc_toward_zero px1) (trunc_toward_zero py1))"
    "update (translated el (trunc_toward_zero px1) (trunc_toward_zero py1)) dt2 =
      Inr (translated el (trunc_toward_zero px1 + trunc_toward_zero px2)
                         (trunc_toward_zero py1 + trunc_toward_zero py2))"
    if h: "float_mul_int (vec_x (velocity el)) dt1 = Inr (Finite px1)"
      "float_mul_int (vec_y (velocity el)) dt1 = Inr (Finite py1)"
      "float_mul_int (vec_x (velocity el)) dt2 = Inr (Finite px2)"
      "float_mul_int (vec_y (velocity el)) dt2 = Inr (Finite py2)"
      "c_int_range (trunc_toward_zero px1)" "c_int_range (trunc_toward_zero py1)"
      "c_int_range (trunc_toward_zero px2)" "c_int_range (trunc_toward_zero py2)"
      "c_int_range (rect_x (rect el) + trunc_toward_zero px1)"
      "c_int_range (rect_y (rect el) + trunc_toward_zero py1)"
      "c_int_range (rect_x (rect el) + trunc_toward_zero px1 + trunc_toward_zero px2)"
      "c_int_range (rect_y (rect el) + trunc_toward_zero py1 + trunc_toward_zero py2)"
  proof -
    let ?e1 = "translated el (trunc_toward_zero px1) (trunc_toward_zero py1)"
    show "update el dt1 = Inr ?e1"
      using h(1,2,5,6,9,10) by (rule update_in_range)
    have "update ?e1 dt2 =
        Inr (translated ?e1 (trunc_toward_zero px2) (trunc_toward_zero py2))"
      using h(3,4,7,8,11,12) by (intro update_in_range) (simp_all add: translated_def)
    then show "update ?e1 dt2 =
        Inr (translated el (trunc_toward_zero px1 + trunc_toward_zero px2)
                           (trunc_toward_zero py1 + trunc_toward_zero py2))"
      by (simp add: translated_translated)
  qed
  have A2: "topleft (rect (translated el a b)) = (rect_x (rect el) + a, rect_y (rect el) + b)"
    "velocity (translated el a b) = velocity el" for a b
    by (simp_all add: translated_fields)
  have B: "update el dt1 = Inr (translated el mx1 my1)"
    "update (translated el mx1 my1) dt2 = Inr (translated el (mx1 + mx2) (my1 + my2))"
    "rat_of_int (rect_x (rect (translated el (mx1 + mx2) (my1 + my2)))) =
        rat_of_int (rect_x (rect el)) + vx * of_int (dt1 + dt2)"
    "rat_of_int (rect_y (rect (translated el (mx1 + mx2) (my1 + my2)))) =
        rat_of_int (rect_y (rect el)) + vy * of_int (dt1 + dt2)"
    if h: "vec_x (velocity el) = Finite vx" "vec_y (velocity el) = Finite vy"
      "\<bar>dt1\<bar> \<le> 2 ^ 53" "\<bar>dt2\<bar> \<le> 2 ^ 53"
      "vx * of_int dt1 = of_int mx1" "vy * of_int dt1 = of_int my1"
      "vx * of_int dt2 = of_int mx2" "vy * of_int dt2 = of_int my2"
      "c_int_range mx1" "c_int_range my1" "c_int_range mx2" "c_int_range my2"
      "c_int_range (rect_x (rect el) + mx1)" "c_int_range (rect_y (rect el) + my1)"
      "c_int_range (rect_x (rect el) + mx1 + mx2)"
      "c_int_range (rect_y (rect el) + my1 + my2)"
  proof -
    show "update el dt1 = Inr (translated el mx1 my1)"
      using h(1,2,3,5,6,9,10,13,14) by (rule update_exact)
    have "update (translated el mx1 my1) dt2 = Inr (translated (translated el mx1 my1) mx2 my2)"
      using h(1,2,4,7,8,11,12,15,16) by (intro update_exact) (simp_all add: translated_def)
    then show "update (translated el mx1 my1) dt2 = Inr (translated el (mx1 + mx2) (my1 + my2))"
      by (simp add: translated_translated)
    show "rat_of_int (rect_x (rect (translated el (mx1 + mx2) (my1 + my2)))) =
        rat_of_int (rect_x (rect el)) + vx * of_int (dt1 + dt2)"
      using h(5,7) by (simp add: translated_def algebra_simps)
    show "rat_of_int (rect_y (rect (translated el (mx1 + mx2) (my1 + my2)))) =
        rat_of_int (rect_y (rect el)) + vy * of_int (dt1 + dt2)"
      using h(6,8) by (simp add: translated_def algebra_simps)
  qed
  have T: "\<bar>rat_of_int (trunc_toward_zero q)\<bar> \<le> \<bar>q\<bar>"
    "\<bar>q - rat_of_int (trunc_toward_zero q)\<bar> < 1"
    using trunc_toward_zero_bounds [of q] by simp_all
  show ?thesis
    by (intro conjI impI; (elim conjE)?; (rule A A2 B T; assumption))
qed

theorem update_twice_adds_truncated_products_witness:
  "float_mul_int (vec_x (velocity scenario_element)) 100 = Inr (Finite 10) \<and>
   float_mul_int (vec_y (velocity scenario_element)) 100 = Inr (Finite (- 5)) \<and>
   float_mul_int (vec_x (velocity scenario_element)) 200 = Inr (Finite 20) \<and>
   float_mul_int (vec_y (velocity scenario_element)) 200 = Inr (Finite (- 10)) \<and>
   c_int_range (trunc_toward_zero 10) \<and> c_int_range (trunc_toward_zero (- 5)) \<and>
   c_int_range (trunc_toward_zero 20) \<and> c_int_range (trunc_toward_zero (- 10)) \<and>
   c_int_range (rect_x (rect scenario_element) + trunc_toward_zero 10) \<and>
   c_int_range (rect_y (rect scenario_element) + trunc_toward_zero (- 5)) \<and>
   c_int_range (rect_x (rect scenario_element) + trunc_toward_zero 10 + trunc_toward_zero 20) \<and>
   c_int_range (rect_y (rect scenario_element) + trunc_toward_zero (- 5)
     + trunc_toward_zero (- 10)) \<and>
   update scenario_element 100 =
     Inr (translated scenario_element (trunc_toward_zero 10) (trunc_toward_zero (- 5))) \<and>
   update (translated scenario_element (trunc_toward_zero 10) (trunc_toward_zero (- 5))) 200 =
     Inr (translated scenario_element (trunc_toward_zero 10 + trunc_toward_zero 20)
                                      (trunc_toward_zero (- 5) + trunc_toward_zero (- 10))) \<and>
   topleft (rect (translated scenario_element (trunc_toward_zero 10 + trunc_toward_zero 20)
                                      (trunc_toward_zero (- 5) + trunc_toward_zero (- 10)))) =
     (rect_x (rect scenario_element) + (trunc_toward_zero 10 + trunc_toward_zero 20),
      rect_y (rect scenario_element) + (trunc_toward_zero (- 5) + trunc_toward_zero (- 10))) \<and>
   vec_x (velocity slow_element) = Finite (1 / 2) \<and>
   vec_y (velocity slow_element) = Finite 0 \<and>
   \<bar>2 :: int\<bar> \<le> 2 ^ 53 \<and> \<bar>4 :: int\<bar> \<le> 2 ^ 53 \<and>
   1 / 2 * rat_of_int 2 = rat_of_int 1 \<and> 0 * rat_of_int 2 = rat_of_int 0 \<and>
   1 / 2 * rat_of_int 4 = rat_of_int 2 \<and> 0 * rat_of_int 4 = rat_of_int 0 \<and>
   c_int_range 1 \<and> c_int_range 0 \<and> c_int_range 2 \<and>
   c_int_range (rect_x (rect slow_element) + 1) \<and>
   c_int_range (rect_y (rect slow_element) + 0) \<and>
   c_int_range (rect_x (rect slow_element) + 1 + 2) \<and>
   c_int_range (rect_y (rect slow_element) + 0 + 0) \<and>
   update slow_element 2 = Inr (translated slow_element 1 0) \<and>
   update (translated slow_element 1 0) 4 = Inr (translated slow_element (1 + 2) (0 + 0)) \<and>
   rat_of_int (rect_x (rect (translated slow_element (1 + 2) (0 + 0)))) =
     rat_of_int (rect_x (rect slow_element)) + 1 / 2 * rat_of_int (2 + 4) \<and>
   rat_of_int (rect_y (rect (translated slow_element (1 + 2) (0 + 0)))) =
     rat_of_int (rect_y (rect slow_element)) + 0 * rat_of_int (2 + 4) \<and>
   float_mul_int (vec_x (velocity diagonal_element)) 6 = Inr (Finite (3 / 2)) \<and>
   float_mul_int (vec_y (velocity diagonal_element)) 6 = Inr (Finite (- (9 / 2))) \<and>
   float_mul_int (vec_x (velocity diagonal_element)) 2 = Inr (Finite (1 / 2)) \<and>
   float_mul_int (vec_y (velocity diagonal_element)) 2 = Inr (Finite (- (3 / 2))) \<and>
   trunc_toward_zero (3 / 2) = 1 \<and> trunc_toward_zero (- (9 / 2)) = - 4 \<and>
   trunc_toward_zero (1 / 2) = 0 \<and> trunc_toward_zero (- (3 / 2)) = - 1 \<and>
   c_int_range (trunc_toward_zero (3 / 2)) \<and> c_int_range (trunc_toward_zero (- (9 / 2))) \<and>
   c_int_range (trunc_toward_zero (1 / 2)) \<and> c_int_range (trunc_toward_zero (- (3 / 2))) \<and>
   c_int_range (rect_x (rect diagonal_element) + trunc_toward_zero (3 / 2)) \<and>
   c_int_range (rect_y (rect diagonal_element) + trunc_toward_zero (- (9 / 2))) \<and>
   c_int_range (rect_x (rect diagonal_element) + trunc_toward_zero (3 / 2)
     + trunc_toward_zero (1 / 2)) \<and>
   c_int_range (rect_y (rect diagonal_element) + trunc_toward_zero (- (9 / 2))
     + trunc_toward_zero (- (3 / 2))) \<and>
   update diagonal_element 6 =
     Inr (translated diagonal_element (trunc_toward_zero (3 / 2))
                                      (trunc_toward_zero (- (9 / 2)))) \<and>
   update (translated diagonal_element (trunc_toward_zero (3 / 2))
                                       (trunc_toward_zero (- (9 / 2)))) 2 =
     Inr (translated diagonal_element (trunc_toward_zero (3 / 2) + trunc_toward_zero (1 / 2))
            (trunc_toward_zero (- (9 / 2)) + trunc_toward_zero (- (3 / 2))))"
proof -
  have a: "float_mul_int (vec_x (velocity scenario_element)) 100 = Inr (Finite 10)"
    "float_mul_int (vec_y (velocity scenario_element)) 100 = Inr (Finite (- 5))"
    "float_mul_int (vec_x (velocity scenario_element)) 200 = Inr (Finite 20)"
    "float_mul_int (vec_y (velocity scenario_element)) 200 = Inr (Finite (- 10))"
    by (simp_all add: scenario_element_def scenario_velocity_def scenario_product_x_100
        scenario_product_y_100 scenario_product_x_200 scenario_product_y_200)
  have b: "c_int_range (trunc_toward_zero 10)" "c_int_range (trunc_toward_zero (- 5))"
    "c_int_range (trunc_toward_zero 20)" "c_int_range (trunc_toward_zero (- 10))"
    "c_int_range (rect_x (rect scenario_element) + trunc_toward_zero 10)"
    "c_int_range (rect_y (rect scenario_element) + trunc_toward_zero (- 5))"
    "c_int_range (rect_x (rect scenario_element) + trunc_toward_zero 10 + trunc_toward_zero 20)"
    "c_int_range (rect_y (rect scenario_element) + trunc_toward_zero (- 5)
       + trunc_toward_zero (- 10))"
    by (simp_all add: scenario_element_def trunc_toward_zero_def c_int_range_def)
  have d: "vec_x (velocity slow_element) = Finite (1 / 2)"
    "vec_y (velocity slow_element) = Finite 0"
    "\<bar>2 :: int\<bar> \<le> 2 ^ 53" "\<bar>4 :: int\<bar> \<le> 2 ^ 53"
    "1 / 2 * rat_of_int 2 = rat_of_int 1" "0 * rat_of_int 2 = rat_of_int 0"
    "1 / 2 * rat_of_int 4 = rat_of_int 2" "0 * rat_of_int 4 = rat_of_int 0"
    "c_int_range 1" "c_int_range 0" "c_int_range 2"
    "c_int_range (rect_x (rect slow_element) + 1)"
    "c_int_range (rect_y (rect slow_element) + 0)"
    "c_int_range (rect_x (rect slow_element) + 1 + 2)"
    "c_int_range (rect_y (rect slow_element) + 0 + 0)"
    by (simp_all add: slow_element_def c_int_range_def)
  note A = update_twice_adds_truncated_products
      [where el = scenario_element and ?dt1.0 = 100 and ?dt2.0 = 200
        and ?px1.0 = 10 and ?py1.0 = "- 5" and ?px2.0 = 20 and ?py2.0 = "- 10",
        THEN conjunct1, rule_format]
  note B = update_twice_adds_truncated_products
      [where el = slow_element and ?dt1.0 = 2 and ?dt2.0 = 4 and vx = "1 / 2" and vy = 0
        and ?mx1.0 = 1 and ?my1.0 = 0 and ?mx2.0 = 2 and ?my2.0 = 0,
        THEN conjunct2, rule_format]
  have A': "update scenario_element 100 =
      Inr (translated scenario_element (trunc_toward_zero 10) (trunc_toward_zero (- 5)))"
    "update (translated scenario_element (trunc_toward_zero 10) (trunc_toward_zero (- 5))) 200 =
      Inr (translated scenario_element (trunc_toward_zero 10 + trunc_toward_zero 20)
                                       (trunc_toward_zero (- 5) + trunc_toward_zero (- 10)))"
    "topleft (rect (translated scenario_element (trunc_toward_zero 10 + trunc_toward_zero 20)
                                       (trunc_toward_zero (- 5) + trunc_toward_zero (- 10)))) =
      (rect_x (rect scenario_element) + (trunc_toward_zero 10 + trunc_toward_zero 20),
       rect_y (rect scenario_element) + (trunc_toward_zero (- 5) + trunc_toward_zero (- 10)))"
    using A a b by blast+
  have B': "update slow_element 2 = Inr (translated slow_element 1 0)"
    "update (translated slow_element 1 0) 4 = Inr (translated slow_element (1 + 2) (0 + 0))"
    "rat_of_int (rect_x (rect (translated slow_element (1 + 2) (0 + 0)))) =
      rat_of_int (rect_x (rect slow_element)) + 1 / 2 * rat_of_int (2 + 4)"
    "rat_of_int (rect_y (rect (translated slow_element (1 + 2) (0 + 0)))) =
      rat_of_int (rect_y (rect slow_element)) + 0 * rat_of_int (2 + 4)"
    using B d by blast+
  have e: "float_mul_int (vec_x (velocity diagonal_element)) 6 = Inr (Finite (3 / 2))"
    "float_mul_int (vec_y (velocity diagonal_element)) 6 = Inr (Finite (- (9 / 2)))"
    "float_mul_int (vec_x (velocity diagonal_element)) 2 = Inr (Finite (1 / 2))"
    "float_mul_int (vec_y (velocity diagonal_element)) 2 = Inr (Finite (- (3 / 2)))"
    "trunc_toward_zero (3 / 2) = 1" "trunc_toward_zero (- (9 / 2)) = - 4"
    "trunc_toward_zero (1 / 2) = 0" "trunc_toward_zero (- (3 / 2)) = - 1"
    "c_int_range (trunc_toward_zero (3 / 2))" "c_int_range (trunc_toward_zero (- (9 / 2)))"
    "c_int_range (trunc_toward_zero (1 / 2))" "c_int_range (trunc_toward_zero (- (3 / 2)))"
    "c_int_range (rect_x (rect diagonal_element) + trunc_toward_zero (3 / 2))"
    "c_int_range (rect_y (rect diagonal_element) + trunc_toward_zero (- (9 / 2)))"
    "c_int_range (rect_x (rect diagonal_element) + trunc_toward_zero (3 / 2)
       + trunc_toward_zero (1 / 2))"
    "c_int_range (rect_y (rect diagonal_element) + trunc_toward_zero (- (9 / 2))
       + trunc_toward_zero (- (3 / 2)))"
    by (simp_all add: diagonal_element_def float_mul_int_diagonal trunc_toward_zero_examples
        c_int_range_def)
  note E = update_twice_adds_truncated_products
      [where el = diagonal_element and ?dt1.0 = 6 and ?dt2.0 = 2
        and ?px1.0 = "3 / 2" and ?py1.0 = "- (9 / 2)" and ?px2.0 = "1 / 2"
        and ?py2.0 = "- (3 / 2)",
        THEN conjunct1, rule_format]
  have E': "update diagonal_element 6 =
      Inr (translated diagonal_element (trunc_toward_zero (3 / 2))
                                       (trunc_toward_zero (- (9 / 2))))"
    "update (translated diagonal_element (trunc_toward_zero (3 / 2))
                                        (trunc_toward_zero (- (9 / 2)))) 2 =
      Inr (translated diagonal_element (trunc_toward_zero (3 / 2) + trunc_toward_zero (1 / 2))
             (trunc_toward_zero (- (9 / 2)) + trunc_toward_zero (- (3 / 2))))"
    using E e by blast+
  show ?thesis
    by (intro conjI a b d A' B' e E')
qed

text \<open>
  C10, as stated, at a counterexample: the claim has the displacement of each coordinate be
  the product of the velocity and dt truncated toward zero, for every GameElement and
  every dt. The element \<open>fast_element\<close> stands at (0, 0) with velocity (3e9, 0). The float
  product \<open>3e9 * 1\<close> is 3000000000, which no C int holds; after \<open>update(1)\<close> the x coordinate
  is -2147483648, so the displacement is not the truncated product.
\<close>

theorem update_displacement_out_of_range_counterexample:
  "GameElement_init ''GameElement'' scenario_pygame (SurfaceObject 0) 0 0
       \<lparr>vec_x = Finite 3000000000, vec_y = Finite 0\<rparr> True
     = Inr (fast_element, scenario_pygame) \<and>
   topleft (rect fast_element) = (0, 0) \<and>
   float_mul_int (vec_x (velocity fast_element)) 1 = Inr (Finite 3000000000) \<and>
   trunc_toward_zero 3000000000 = 3000000000 \<and>
   update fast_element 1 =
     Inr (fast_element\<lparr>rect := (rect fast_element)\<lparr>rect_x := - 2147483648\<rparr>\<rparr>) \<and>
   rect_x (rect (fast_element\<lparr>rect := (rect fast_element)\<lparr>rect_x := - 2147483648\<rparr>\<rparr>))
     - rect_x (rect fast_element) \<noteq> trunc_toward_zero 3000000000"
proof -
  have 1: "GameElement_init ''GameElement'' scenario_pygame (SurfaceObject 0) 0 0
       \<lparr>vec_x = Finite 3000000000, vec_y = Finite 0\<rparr> True
     = Inr (fast_element, scenario_pygame)"
    by (simp add: GameElement_init_def scenario_pygame_def fast_element_def get_rect_def)
  have 2: "topleft (rect fast_element) = (0, 0)"
    by (simp add: fast_element_def topleft_def)
  have 3: "float_mul_int (vec_x (velocity fast_element)) 1 = Inr (Finite 3000000000)"
    by (simp add: fast_element_def float_mul_int_fast)
  have 4: "trunc_toward_zero 3000000000 = 3000000000"
    using trunc_toward_zero_of_int [of 3000000000] by simp
  have 5: "rect_x (rect (fast_element\<lparr>rect := (rect fast_element)\<lparr>rect_x := - 2147483648\<rparr>\<rparr>))
     - rect_x (rect fast_element) \<noteq> trunc_toward_zero 3000000000"
    unfolding 4 by (simp add: fast_element_def)
  show ?thesis
    by (intro conjI 1 2 3 4 5 fast_update_1)
qed

text \<open>
  C10, amended: for every GameElement and every dt for which \<open>update(dt)\<close> returns (it does
  whenever dt is at most \<open>2 ^ 53\<close> in magnitude), in each coordinate whose float product
  \<open>velocity * dt\<close> is finite and, truncated toward zero, fits a C int, as does the new
  coordinate, the displacement that update applies is that product truncated toward zero:
  an integer no larger in magnitude than the product and less than 1 away from it. For a
  finite velocity and such a dt the float product is the exact product rounded to a float:
  it differs from it by at most \<open>2 ^ 53\<close>-th of its magnitude plus \<open>2 powi - 1075\<close>, and has
  its sign. The coordinates of \<open>rect\<close> are C ints after every call that returns. Whenever
  the float product \<open>velocity.x * dt\<close> is finite and less than 1 in magnitude the x
  position, a C int, does not change, and likewise for y.
\<close>

theorem update_displacement_truncated_toward_zero:
  "(\<bar>dt\<bar> \<le> 2 ^ 53 \<longrightarrow>
      update el dt =
        Inr (el\<lparr>rect := move_ip (rect el) (float_mul (vec_x (velocity el)) (of_int dt))
                                         (float_mul (vec_y (velocity el)) (of_int dt))\<rparr>)) \<and>
   (update el dt = Inr el' \<and>
    float_mul_int (vec_x (velocity el)) dt = Inr (Finite px) \<and>
    c_int_range (trunc_toward_zero px) \<and>
    c_int_range (rect_x (rect el) + trunc_toward_zero px) \<longrightarrow>
      rect_x (rect el') - rect_x (rect el) = trunc_toward_zero px \<and>
      \<bar>rat_of_int (rect_x (rect el') - rect_x (rect el))\<bar> \<le> \<bar>px\<bar> \<and>
      \<bar>px - rat_of_int (rect_x (rect el') - rect_x (rect el))\<bar> < 1) \<and>
   (update el dt = Inr el' \<and>
    float_mul_int (vec_y (velocity el)) dt = Inr (Finite py) \<and>
    c_int_range (trunc_toward_zero py) \<and>
    c_int_range (rect_y (rect el) + trunc_toward_zero py) \<longrightarrow>
      rect_y (rect el') - rect_y (rect el) = trunc_toward_zero py \<and>
      \<bar>rat_of_int (rect_y (rect el') - rect_y (rect el))\<bar> \<le> \<bar>py\<bar> \<and>
      \<bar>py - rat_of_int (rect_y (rect el') - rect_y (rect el))\<bar> < 1) \<and>
   (vec_x (velocity el) = Finite vx \<and> \<bar>dt\<bar> \<le> 2 ^ 53 \<and>
    float_mul_int (vec_x (velocity el)) dt = Inr (Finite px) \<longrightarrow>
      \<bar>px - vx * of_int dt\<bar> \<le> \<bar>vx * of_int dt\<bar> / 2 ^ 53 + 2 powi (- 1075) \<and>
      (0 \<le> vx * of_int dt \<longrightarrow> 0 \<le> px) \<and> (vx * of_int dt \<le> 0 \<longrightarrow> px \<le> 0)) \<and>
   (vec_y (velocity el) = Finite vy \<and> \<bar>dt\<bar> \<le> 2 ^ 53 \<and>
    float_mul_int (vec_y (velocity el)) dt = Inr (Finite py) \<longrightarrow>
      \<bar>py - vy * of_int dt\<bar> \<le> \<bar>vy * of_int dt\<bar> / 2 ^ 53 + 2 powi (- 1075) \<and>
      (0 \<le> vy * of_int dt \<longrightarrow> 0 \<le> py) \<and> (vy * of_int dt \<le> 0 \<longrightarrow> py \<le> 0)) \<and>
   (update el dt = Inr el' \<longrightarrow>
      c_int_range (rect_x (rect el')) \<and> c_int_range (rect_y (rect el'))) \<and>
   (update el dt = Inr el' \<and>
    float_mul_int (vec_x (velocity el)) dt = Inr (Finite px) \<and> \<bar>px\<bar> < 1 \<and>
    c_int_range (rect_x (rect el)) \<longrightarrow>
      rect_x (rect el') = rect_x (rect el)) \<and>
   (update el dt = Inr el' \<and>
    float_mul_int (vec_y (velocity el)) dt = Inr (Finite py) \<and> \<bar>py\<bar> < 1 \<and>
    c_int_range (rect_y (rect el)) \<longrightarrow>
      rect_y (rect el') = rect_y (rect el))"
proof -
  have total: "update el dt =
        Inr (el\<lparr>rect := move_ip (rect el) (float_mul (vec_x (velocity el)) (of_int dt))
                                         (float_mul (vec_y (velocity el)) (of_int dt))\<rparr>)"
    if "\<bar>dt\<bar> \<le> 2 ^ 53"
    using that by (rule update_small_dt)
  have x: "rect_x (rect el') = c_int_wrap (rect_x (rect el) + c_int_of_double (Finite px))"
    if "update el dt = Inr el'" "float_mul_int (vec_x (velocity el)) dt = Inr (Finite px)"
    using that by (auto elim!: update_Inr_cases simp: move_ip_def)
  have y: "rect_y (rect el') = c_int_wrap (rect_y (rect el) + c_int_of_double (Finite py))"
    if "update el dt = Inr el'" "float_mul_int (vec_y (velocity el)) dt = Inr (Finite py)"
    using that by (auto elim!: update_Inr_cases simp: move_ip_def)
  have dx: "rect_x (rect el') - rect_x (rect el) = trunc_toward_zero px"
    if "update el dt = Inr el'" "float_mul_int (vec_x (velocity el)) dt = Inr (Finite px)"
      "c_int_range (trunc_toward_zero px)"
      "c_int_range (rect_x (rect el) + trunc_toward_zero px)"
    using x [OF that(1,2)] that(3,4) by (simp add: c_int_wrap_in_range)
  have dy: "rect_y (rect el') - rect_y (rect el) = trunc_toward_zero py"
    if "update el dt = Inr el'" "float_mul_int (vec_y (velocity el)) dt = Inr (Finite py)"
      "c_int_range (trunc_toward_zero py)"
      "c_int_range (rect_y (rect el) + trunc_toward_zero py)"
    using y [OF that(1,2)] that(3,4) by (simp add: c_int_wrap_in_range)
  have bx: "\<bar>rat_of_int (rect_x (rect el') - rect_x (rect el))\<bar> \<le> \<bar>px\<bar>"
    "\<bar>px - rat_of_int (rect_x (rect el') - rect_x (rect el))\<bar> < 1"
    if "update el dt = Inr el'" "float_mul_int (vec_x (velocity el)) dt = Inr (Finite px)"
      "c_int_range (trunc_toward_zero px)"
      "c_int_range (rect_x (rect el) + trunc_toward_zero px)"
    unfolding dx [OF that] using trunc_toward_zero_bounds [of px] by simp_all
  have "by": "\<bar>rat_of_int (rect_y (rect el') - rect_y (rect el))\<bar> \<le> \<bar>py\<bar>"
    "\<bar>py - rat_of_int (rect_y (rect el') - rect_y (rect el))\<bar> < 1"
    if "update el dt = Inr el'" "float_mul_int (vec_y (velocity el)) dt = Inr (Finite py)"
      "c_int_range (trunc_toward_zero py)"
      "c_int_range (rect_y (rect el) + trunc_toward_zero py)"
    unfolding dy [OF that] using trunc_toward_zero_bounds [of py] by simp_all
  have rx: "\<bar>px - vx * of_int dt\<bar> \<le> \<bar>vx * of_int dt\<bar> / 2 ^ 53 + 2 powi (- 1075)"
    "0 \<le> vx * of_int dt \<Longrightarrow> 0 \<le> px" "vx * of_int dt \<le> 0 \<Longrightarrow> px \<le> 0"
    if "vec_x (velocity el) = Finite vx" "\<bar>dt\<bar> \<le> 2 ^ 53"
      "float_mul_int (vec_x (velocity el)) dt = Inr (Finite px)"
  proof -
    have p: "px = float_round (vx * of_int dt)"
      using that by (intro float_mul_int_Finite_rounds [of dt vx]) simp_all
    show "\<bar>px - vx * of_int dt\<bar> \<le> \<bar>vx * of_int dt\<bar> / 2 ^ 53 + 2 powi (- 1075)"
      unfolding p by (rule float_round_relative_error)
    show "0 \<le> vx * of_int dt \<Longrightarrow> 0 \<le> px" "vx * of_int dt \<le> 0 \<Longrightarrow> px \<le> 0"
      unfolding p by (rule float_round_sign; assumption)+
  qed
  have ry: "\<bar>py - vy * of_int dt\<bar> \<le> \<bar>vy * of_int dt\<bar> / 2 ^ 53 + 2 powi (- 1075)"
    "0 \<le> vy * of_int dt \<Longrightarrow> 0 \<le> py" "vy * of_int dt \<le> 0 \<Longrightarrow> py \<le> 0"
    if "vec_y (velocity el) = Finite vy" "\<bar>dt\<bar> \<le> 2 ^ 53"
      "float_mul_int (vec_y (velocity el)) dt = Inr (Finite py)"
  proof -
    have p: "py = float_round (vy * of_int dt)"
      using that by (intro float_mul_int_Finite_rounds [of dt vy]) simp_all
    show "\<bar>py - vy * of_int dt\<bar> \<le> \<bar>vy * of_int dt\<bar> / 2 ^ 53 + 2 powi (- 1075)"
      unfolding p by (rule float_round_relative_error)
    show "0 \<le> vy * of_int dt \<Longrightarrow> 0 \<le> py" "vy * of_int dt \<le> 0 \<Longrightarrow> py \<le> 0"
      unfolding p by (rule float_round_sign; assumption)+
  qed
  have c: "c_int_range (rect_x (rect el'))" "c_int_range (rect_y (rect el'))"
    if "update el dt = Inr el'"
    using that by (rule update_Inr_keeps)+
  have sx: "rect_x (rect el') = rect_x (rect el)"
    if "update el dt = Inr el'" "float_mul_int (vec_x (velocity el)) dt = Inr (Finite px)"
      "\<bar>px\<bar> < 1" "c_int_range (rect_x (rect el))"
    using x [OF that(1,2)] that(3,4)
    by (simp add: trunc_toward_zero_small c_int_range_0 c_int_wrap_in_range)
  have sy: "rect_y (rect el') = rect_y (rect el)"
    if "update el dt = Inr el'" "float_mul_int (vec_y (velocity el)) dt = Inr (Finite py)"
      "\<bar>py\<bar> < 1" "c_int_range (rect_y (rect el))"
    using y [OF that(1,2)] that(3,4)
    by (simp add: trunc_toward_zero_small c_int_range_0 c_int_wrap_in_range)
  show ?thesis
    by (intro conjI impI; (elim conjE)?; (rule total dx dy bx "by" rx ry c sx sy; assumption))
qed

theorem update_displacement_truncated_toward_zero_witness:
  "\<bar>6 :: int\<bar> \<le> 2 ^ 53 \<and>
   update diagonal_element 6 = Inr (translated diagonal_element 1 (- 4)) \<and>
   vec_x (velocity diagonal_element) = Finite (1 / 4) \<and>
   vec_y (velocity diagonal_element) = Finite (- (3 / 4)) \<and>
   float_mul_int (vec_x (velocity diagonal_element)) 6 = Inr (Finite (3 / 2)) \<and>
   float_mul_int (vec_y (velocity diagonal_element)) 6 = Inr (Finite (- (9 / 2))) \<and>
   trunc_toward_zero (3 / 2) = 1 \<and> trunc_toward_zero (- (9 / 2)) = - 4 \<and>
   c_int_range (trunc_toward_zero (3 / 2)) \<and>
   c_int_range (rect_x (rect diagonal_element) + trunc_toward_zero (3 / 2)) \<and>
   c_int_range (trunc_toward_zero (- (9 / 2))) \<and>
   c_int_range (rect_y (rect diagonal_element) + trunc_toward_zero (- (9 / 2))) \<and>
   rect_x (rect (translated diagonal_element 1 (- 4))) - rect_x (rect diagonal_element)
     = trunc_toward_zero (3 / 2) \<and>
   rect_y (rect (translated diagonal_element 1 (- 4))) - rect_y (rect diagonal_element)
     = trunc_toward_zero (- (9 / 2)) \<and>
   \<bar>3 / 2 - 1 / 4 * rat_of_int 6\<bar> \<le> \<bar>1 / 4 * rat_of_int 6\<bar> / 2 ^ 53 + 2 powi (- 1075) \<and>
   \<bar>- (9 / 2) - - (3 / 4) * rat_of_int 6\<bar>
     \<le> \<bar>- (3 / 4) * rat_of_int 6\<bar> / 2 ^ 53 + 2 powi (- 1075) \<and>
   0 \<le> 1 / 4 * rat_of_int 6 \<and> (0 :: rat) \<le> 3 / 2 \<and>
   - (3 / 4) * rat_of_int 6 \<le> 0 \<and> - (9 / 2) \<le> (0 :: rat) \<and>
   c_int_range (rect_x (rect (translated diagonal_element 1 (- 4)))) \<and>
   c_int_range (rect_y (rect (translated diagonal_element 1 (- 4)))) \<and>
   update diagonal_element 2 = Inr (translated diagonal_element 0 (- 1)) \<and>
   float_mul_int (vec_x (velocity diagonal_element)) 2 = Inr (Finite (1 / 2)) \<and>
   \<bar>1 / 2 :: rat\<bar> < 1 \<and> c_int_range (rect_x (rect diagonal_element)) \<and>
   rect_x (rect (translated diagonal_element 0 (- 1))) = rect_x (rect diagonal_element) \<and>
   rect_y (rect (translated diagonal_element 0 (- 1))) = rect_y (rect diagonal_element) - 1 \<and>
   update slow_element 1 = Inr slow_element \<and>
   float_mul_int (vec_y (velocity slow_element)) 1 = Inr (Finite 0) \<and>
   \<bar>0 :: rat\<bar> < 1 \<and> c_int_range (rect_y (rect slow_element)) \<and>
   rect_y (rect slow_element) = rect_y (rect slow_element)"
proof -
  have h6: "\<bar>6 :: int\<bar> \<le> 2 ^ 53"
    "vec_x (velocity diagonal_element) = Finite (1 / 4)"
    "vec_y (velocity diagonal_element) = Finite (- (3 / 4))"
    "float_mul_int (vec_x (velocity diagonal_element)) 6 = Inr (Finite (3 / 2))"
    "float_mul_int (vec_y (velocity diagonal_element)) 6 = Inr (Finite (- (9 / 2)))"
    "c_int_range (trunc_toward_zero (3 / 2))"
    "c_int_range (rect_x (rect diagonal_element) + trunc_toward_zero (3 / 2))"
    "c_int_range (trunc_toward_zero (- (9 / 2)))"
    "c_int_range (rect_y (rect diagonal_element) + trunc_toward_zero (- (9 / 2)))"
    by (simp_all add: diagonal_element_def float_mul_int_diagonal trunc_toward_zero_examples
        c_int_range_def)
  have t: "trunc_toward_zero (3 / 2) = 1" "trunc_toward_zero (- (9 / 2)) = - 4"
    by (simp_all add: trunc_toward_zero_examples)
  have s6: "0 \<le> 1 / 4 * rat_of_int 6" "- (3 / 4) * rat_of_int 6 \<le> 0"
    by simp_all
  have h2: "float_mul_int (vec_x (velocity diagonal_element)) 2 = Inr (Finite (1 / 2))"
    "\<bar>1 / 2 :: rat\<bar> < 1" "c_int_range (rect_x (rect diagonal_element))"
    by (simp_all add: diagonal_element_def float_mul_int_diagonal c_int_range_def)
  have y2: "rect_y (rect (translated diagonal_element 0 (- 1))) = rect_y (rect diagonal_element) - 1"
    by (simp add: translated_def)
  have h1: "float_mul_int (vec_y (velocity slow_element)) 1 = Inr (Finite 0)"
    "\<bar>0 :: rat\<bar> < 1" "c_int_range (rect_y (rect slow_element))"
    by (simp_all add: slow_element_def float_mul_int_0_1 c_int_range_def)
  note D6 = update_displacement_truncated_toward_zero
      [where el = diagonal_element and dt = 6 and el' = "translated diagonal_element 1 (- 4)"
        and px = "3 / 2" and py = "- (9 / 2)" and vx = "1 / 4" and vy = "- (3 / 4)"]
  note D2 = update_displacement_truncated_toward_zero
      [where el = diagonal_element and dt = 2 and el' = "translated diagonal_element 0 (- 1)"
        and px = "1 / 2"]
  note D1 = update_displacement_truncated_toward_zero
      [where el = slow_element and dt = 1 and el' = slow_element and py = 0]
  have r6: "rect_x (rect (translated diagonal_element 1 (- 4))) - rect_x (rect diagonal_element)
      = trunc_toward_zero (3 / 2)"
    "rect_y (rect (translated diagonal_element 1 (- 4))) - rect_y (rect diagonal_element)
      = trunc_toward_zero (- (9 / 2))"
    "\<bar>3 / 2 - 1 / 4 * rat_of_int 6\<bar> \<le> \<bar>1 / 4 * rat_of_int 6\<bar> / 2 ^ 53 + 2 powi (- 1075)"
    "\<bar>- (9 / 2) - - (3 / 4) * rat_of_int 6\<bar>
      \<le> \<bar>- (3 / 4) * rat_of_int 6\<bar> / 2 ^ 53 + 2 powi (- 1075)"
    "(0 :: rat) \<le> 3 / 2" "- (9 / 2) \<le> (0 :: rat)"
    "c_int_range (rect_x (rect (translated diagonal_element 1 (- 4))))"
    "c_int_range (rect_y (rect (translated diagonal_element 1 (- 4))))"
    using D6 h6 s6 diagonal_update_6 by blast+
  have r2: "rect_x (rect (translated diagonal_element 0 (- 1))) = rect_x (rect diagonal_element)"
    using D2 h2 diagonal_update_2 by blast
  have r1: "rect_y (rect slow_element) = rect_y (rect slow_element)"
    using D1 h1 slow_update_1 by blast
  show ?thesis
    by (intro conjI h6 t s6 h2 y2 h1 r6 r2 r1 diagonal_update_6 diagonal_update_2 slow_update_1)
qed

end
